theory Spec2Isabelle
  imports Complex_Main "HOL-Library.Char_ord" "HOL-Library.List_Lexorder"
begin

section \<open>Text and decimal values\<close>

text \<open>
  A Python \<open>str\<close> is modelled as a \<open>string\<close> whose characters stand for code points
  below 256. \<open>isspace\<close> is \<open>str.isspace\<close> on that range; \<open>lower\<close> and \<open>title\<close>
  change the case of the ASCII letters and leave every other character as it is.
\<close>

definition isspace :: "char \<Rightarrow> bool" where
  "isspace c =
     (let n = (of_char c :: nat)
      in (9 \<le> n \<and> n \<le> 13) \<or> (28 \<le> n \<and> n \<le> 32) \<or> n = 133 \<or> n = 160)"

definition strip :: "string \<Rightarrow> string" where
  "strip s = rev (dropWhile isspace (rev (dropWhile isspace s)))"

definition isupper :: "char \<Rightarrow> bool" where
  "isupper c = (let n = (of_char c :: nat) in 65 \<le> n \<and> n \<le> 90)"

definition islower :: "char \<Rightarrow> bool" where
  "islower c = (let n = (of_char c :: nat) in 97 \<le> n \<and> n \<le> 122)"

definition lower_char :: "char \<Rightarrow> char" where
  "lower_char c = (if isupper c then char_of ((of_char c :: nat) + 32) else c)"

definition upper_char :: "char \<Rightarrow> char" where
  "upper_char c = (if islower c then char_of ((of_char c :: nat) - 32) else c)"

definition lower :: "string \<Rightarrow> string" where
  "lower s = map lower_char s"

text \<open>\<open>str.title\<close>: a cased character is upper-cased when the character before it is
  not cased, and lower-cased otherwise.\<close>

fun title_from :: "bool \<Rightarrow> string \<Rightarrow> string" where
  "title_from prev_cased [] = []"
| "title_from prev_cased (c # cs) =
     (if prev_cased then lower_char c else upper_char c)
       # title_from (isupper c \<or> islower c) cs"

definition title :: "string \<Rightarrow> string" where
  "title s = title_from False s"

text \<open>\<open>re.sub(r'\s+', ' ', name)\<close>: every maximal run of whitespace becomes one space.\<close>

fun collapse_from :: "bool \<Rightarrow> string \<Rightarrow> string" where
  "collapse_from in_run [] = []"
| "collapse_from in_run (c # cs) =
     (if isspace c then
        (if in_run then collapse_from True cs else CHR '' '' # collapse_from True cs)
      else c # collapse_from False cs)"

definition collapse_spaces :: "string \<Rightarrow> string" where
  "collapse_spaces s = collapse_from False s"

text \<open>
  \<open>decimal.Decimal\<close>: a finite value is a sign (\<open>True\<close> for negative), a coefficient and
  an exponent, standing for \<open>\<plusminus> coefficient * 10 ^ exponent\<close>; the special values are
  the infinities and NaN (quiet and signalling NaN behave alike in every operation used
  here and are one value). The exponent limits of the library are not modelled.
\<close>

datatype decimal = Finite bool nat int | Infinity bool | NaN

definition isdigit :: "char \<Rightarrow> bool" where
  "isdigit c = (let n = (of_char c :: nat) in 48 \<le> n \<and> n \<le> 57)"

definition digits_value :: "string \<Rightarrow> nat" where
  "digits_value ds = foldl (\<lambda>a c. 10 * a + ((of_char c :: nat) - 48)) 0 ds"

fun split_sign :: "string \<Rightarrow> bool \<times> string" where
  "split_sign [] = (False, [])"
| "split_sign (c # cs) =
     (if c = CHR ''-'' then (True, cs)
      else if c = CHR ''+'' then (False, cs)
      else (False, c # cs))"

text \<open>The exponent part of a numeric string: empty, or \<open>e\<close>/\<open>E\<close>, an optional sign and
  at least one digit. \<open>None\<close> when the text is none of these.\<close>

definition exponent_part :: "string \<Rightarrow> int option" where
  "exponent_part s =
     (case s of
        [] \<Rightarrow> Some 0
      | c # cs \<Rightarrow>
          if c = CHR ''e'' \<or> c = CHR ''E'' then
            (case split_sign cs of
               (neg, ds) \<Rightarrow>
                 if ds \<noteq> [] \<and> list_all isdigit ds
                 then Some (if neg then - int (digits_value ds) else int (digits_value ds))
                 else None)
          else None)"

definition finite_part :: "bool \<Rightarrow> string \<Rightarrow> decimal option" where
  "finite_part neg s =
     (let ip = takeWhile isdigit s;
          r1 = dropWhile isdigit s;
          has_point = (r1 \<noteq> [] \<and> hd r1 = CHR ''.'');
          fp = (if has_point then takeWhile isdigit (tl r1) else []);
          r2 = (if has_point then dropWhile isdigit (tl r1) else r1)
      in if ip @ fp = [] then None
         else (case exponent_part r2 of
                 None \<Rightarrow> None
               | Some e \<Rightarrow> Some (Finite neg (digits_value (ip @ fp)) (e - int (length fp)))))"

definition nan_text :: "string \<Rightarrow> bool" where
  "nan_text s =
     ((take 3 s = ''nan'' \<and> list_all isdigit (drop 3 s))
      \<or> (take 4 s = ''snan'' \<and> list_all isdigit (drop 4 s)))"

text \<open>\<open>Decimal(text)\<close>: surrounding whitespace and underscores are removed; \<open>None\<close> is
  the \<open>InvalidOperation\<close> the constructor raises on any other text.\<close>

definition Decimal_of_str :: "string \<Rightarrow> decimal option" where
  "Decimal_of_str text =
     (case split_sign (filter (\<lambda>c. c \<noteq> CHR ''_'') (strip text)) of
        (neg, body) \<Rightarrow>
          if lower body = ''inf'' \<or> lower body = ''infinity'' then Some (Infinity neg)
          else if nan_text (lower body) then Some NaN
          else finite_part neg body)"

text \<open>Ordering comparisons with zero; \<open>None\<close> is the \<open>InvalidOperation\<close> raised when a
  NaN is compared.\<close>

fun dec_negative :: "decimal \<Rightarrow> bool option" where
  "dec_negative (Finite neg c e) = Some (neg \<and> 0 < c)"
| "dec_negative (Infinity neg) = Some neg"
| "dec_negative NaN = None"

fun dec_is_zero :: "decimal \<Rightarrow> bool" where
  "dec_is_zero (Finite neg c e) = (c = 0)"
| "dec_is_zero (Infinity neg) = False"
| "dec_is_zero NaN = False"

text \<open>The number a finite decimal stands for.\<close>

definition pow10 :: "int \<Rightarrow> rat" where
  "pow10 e = (if 0 \<le> e then 10 ^ nat e else 1 / 10 ^ nat (- e))"

fun dec_value :: "decimal \<Rightarrow> rat option" where
  "dec_value (Finite neg c e) = Some ((if neg then - 1 else 1) * of_nat c * pow10 e)"
| "dec_value (Infinity neg) = None"
| "dec_value NaN = None"

text \<open>The number of decimal digits of a coefficient (\<open>0\<close> has one digit).\<close>

fun ndigits :: "nat \<Rightarrow> nat" where
  "ndigits n = (if n < 10 then 1 else Suc (ndigits (n div 10)))"

declare ndigits.simps [simp del]

text \<open>Rounding a coefficient to drop its last \<open>k\<close> digits, ties to the even neighbour
  (\<open>ROUND_HALF_EVEN\<close>, the rounding of the default context).\<close>

definition round_half_even :: "nat \<Rightarrow> nat \<Rightarrow> nat" where
  "round_half_even c k =
     (let q = c div 10 ^ k; r = c mod 10 ^ k
      in if 2 * r > 10 ^ k \<or> (2 * r = 10 ^ k \<and> odd q) then q + 1 else q)"

text \<open>
  \<open>d.quantize(Decimal('0.01'))\<close> in the default context (precision 28): the value at
  exponent \<open>-2\<close>. \<open>None\<close> is the \<open>InvalidOperation\<close> raised for an infinity and for a
  result whose coefficient would need more than 28 digits; a quiet NaN is returned as
  it is.
\<close>

definition prec :: nat where
  "prec = 28"

fun quantize_cents :: "decimal \<Rightarrow> decimal option" where
  "quantize_cents (Finite neg c e) =
     (if c = 0 then Some (Finite neg 0 (- 2))
      else if int (ndigits c) + e + 2 > int prec then None
      else
        (let c' = (if - 2 \<le> e then c * 10 ^ nat (e + 2) else round_half_even c (nat (- 2 - e)))
         in if ndigits c' > prec then None else Some (Finite neg c' (- 2))))"
| "quantize_cents (Infinity neg) = None"
| "quantize_cents NaN = Some NaN"

section \<open>Validator\<close>

text \<open>\<open>ValidationResult\<close>: the outcome of one validation, with the cleaned value of the
  validated field.\<close>

record 'a ValidationResult =
  is_valid :: bool
  errors :: "string list"
  warnings :: "string list"
  cleaned_value :: "'a option"

definition new_result :: "'a ValidationResult" where
  "new_result = \<lparr>is_valid = True, errors = [], warnings = [], cleaned_value = None\<rparr>"

definition add_error :: "string \<Rightarrow> 'a ValidationResult \<Rightarrow> 'a ValidationResult" where
  "add_error e r = r\<lparr>errors := errors r @ [e], is_valid := False\<rparr>"

definition add_warning :: "string \<Rightarrow> 'a ValidationResult \<Rightarrow> 'a ValidationResult" where
  "add_warning w r = r\<lparr>warnings := warnings r @ [w]\<rparr>"

definition set_cleaned_value :: "'a \<Rightarrow> 'a ValidationResult \<Rightarrow> 'a ValidationResult" where
  "set_cleaned_value v r = r\<lparr>cleaned_value := Some v\<rparr>"

text \<open>The exceptions the validator and the pipeline raise.\<close>

datatype exn =
    InvalidAmountError string
  | InvalidStatusError string
  | TypeError
  | KeyError string
  | ValueError string
  | SQLAlchemyError string
  | DatabaseTransactionError string

definition VALID_STATUSES :: "string list" where
  "VALID_STATUSES =
     [''paid'', ''pending_payment'', ''voided'', ''refunded'', ''pre_authorized'',
      ''charged_back'']"

text \<open>
  \<open>InputValidator.validate_amount\<close>. The argument is \<open>None\<close> or the text \<open>str(amount)\<close>
  of the value passed. A negative, zero (unless allowed) or unparsable amount raises
  \<open>InvalidAmountError\<close>; an infinity reaches the comparison of its exponent \<open>'F'\<close> with
  \<open>-2\<close>, a \<open>TypeError\<close>.
\<close>

definition rounding_warning :: string where
  "rounding_warning = ''Amount has more than 2 decimal places, will be rounded''"

definition validate_amount :: "string option \<Rightarrow> bool \<Rightarrow> exn + decimal ValidationResult" where
  "validate_amount amount allow_zero =
     (case amount of
        None \<Rightarrow> Inr (add_error ''Amount is required'' new_result)
      | Some a \<Rightarrow>
          (case Decimal_of_str a of
             None \<Rightarrow> Inl (InvalidAmountError ''Invalid amount format'')
           | Some d \<Rightarrow>
               (case dec_negative d of
                  None \<Rightarrow> Inl (InvalidAmountError ''Invalid amount format'')
                | Some True \<Rightarrow> Inl (InvalidAmountError ''Amount cannot be negative'')
                | Some False \<Rightarrow>
                    if \<not> allow_zero \<and> dec_is_zero d
                    then Inl (InvalidAmountError ''Amount cannot be zero'')
                    else
                      (case d of
                         Finite neg c e \<Rightarrow>
                           if e < - 2 then
                             (case quantize_cents d of
                                None \<Rightarrow> Inl (InvalidAmountError ''Invalid amount format'')
                              | Some q \<Rightarrow>
                                  Inr (set_cleaned_value q
                                         (add_warning rounding_warning new_result)))
                           else Inr (set_cleaned_value d new_result)
                       | Infinity neg' \<Rightarrow> Inl TypeError
                       | NaN \<Rightarrow> Inl (InvalidAmountError ''Invalid amount format'')))))"

text \<open>\<open>InputValidator.validate_status\<close>; the argument is \<open>None\<close> or a string.\<close>

definition validate_status :: "string option \<Rightarrow> exn + string ValidationResult" where
  "validate_status status =
     (case status of
        None \<Rightarrow> Inr (add_error ''Status is required and must be a string'' new_result)
      | Some s \<Rightarrow>
          if s = [] then Inr (add_error ''Status is required and must be a string'' new_result)
          else
            (let cleaned_status = lower (strip s)
             in if cleaned_status = [] then Inr (add_error ''Status cannot be empty'' new_result)
                else if cleaned_status \<notin> set VALID_STATUSES then Inl (InvalidStatusError s)
                else Inr (set_cleaned_value cleaned_status new_result)))"


section \<open>Library and server functions taken as parameters\<close>

text \<open>
  A \<open>datetime\<close> is a point in time without a time zone, counted in seconds. The date
  parsers of the libraries and of the database server are parameters of the model:
  \<open>strptime L text pattern\<close> is \<open>datetime.strptime\<close> (\<open>None\<close> for its \<open>ValueError\<close>),
  \<open>to_datetime L text\<close> is \<open>pandas.to_datetime(text, errors='raise')\<close> (\<open>None\<close> when it
  raises), and \<open>cast_timestamp L text\<close> is the cast PostgreSQL applies to a text sent for
  a \<open>DateTime\<close> column (\<open>None\<close> when the server refuses the text).
\<close>

type_synonym datetime = int

record parsers =
  strptime :: "string \<Rightarrow> string \<Rightarrow> datetime option"
  to_datetime :: "string \<Rightarrow> datetime option"
  cast_timestamp :: "string \<Rightarrow> datetime option"

fun str_of_nat :: "nat \<Rightarrow> string" where
  "str_of_nat n =
     (if n < 10 then [char_of (48 + n)]
      else str_of_nat (n div 10) @ [char_of (48 + n mod 10)])"

declare str_of_nat.simps [simp del]

section \<open>Loader\<close>

text \<open>\<open>ValidationReport\<close>; an entry of \<open>errors\<close> is the dictionary \<open>_validate_row\<close>
  builds, an entry of \<open>warnings\<close> the one \<open>validate_data_integrity\<close> builds.\<close>

record row_error =
  e_type :: string
  e_field :: string
  e_row :: nat
  e_message :: string
  e_value :: "string option"
  e_value_length :: "nat option"

record report_warning =
  w_type :: string
  w_message :: string
  w_count :: nat

record ValidationReport =
  total_rows :: nat
  valid_rows :: nat
  invalid_rows :: nat
  report_errors :: "row_error list"
  report_warnings :: "report_warning list"
  duplicates :: nat

text \<open>\<open>ValidationReport.success_rate\<close>. The quotient of the second branch is the exact
  one; the rounding of the float division is not modelled.\<close>

definition success_rate :: "ValidationReport \<Rightarrow> real" where
  "success_rate r =
     (if total_rows r = 0 then 0.0
      else (real (valid_rows r) / real (total_rows r)) * 100)"

text \<open>A row of the frame \<open>_read_csv_file\<close> returns: every column is read as text, and a
  missing value is \<open>None\<close>.\<close>

record csv_row =
  c_id :: "string option"
  c_name :: "string option"
  c_company_id :: "string option"
  c_amount :: "string option"
  c_status :: "string option"
  c_created_at :: "string option"
  c_paid_at :: "string option"

text \<open>Python's truth value of a cell: \<open>None\<close> and the empty string are false.\<close>

definition truthy :: "string option \<Rightarrow> bool" where
  "truthy v = (case v of None \<Rightarrow> False | Some s \<Rightarrow> s \<noteq> [])"

definition MAX_LENGTHS :: "(string \<times> (csv_row \<Rightarrow> string option) \<times> nat) list" where
  "MAX_LENGTHS =
     [(''id'', c_id, 64), (''name'', c_name, 130), (''company_id'', c_company_id, 64),
      (''status'', c_status, 50), (''created_at'', c_created_at, 50),
      (''paid_at'', c_paid_at, 50)]"

definition missing_required_field :: "string \<Rightarrow> string \<Rightarrow> nat \<Rightarrow> row_error" where
  "missing_required_field field message row_index =
     \<lparr>e_type = ''missing_required_field'', e_field = field, e_row = row_index,
      e_message = message, e_value = None, e_value_length = None\<rparr>"

definition length_errors :: "csv_row \<Rightarrow> nat \<Rightarrow> row_error list" where
  "length_errors row row_index =
     concat (map (\<lambda>(field, sel, max_length).
        (case sel row of
           None \<Rightarrow> []
         | Some v \<Rightarrow>
             if v \<noteq> [] \<and> length v > max_length then
               [\<lparr>e_type = ''field_too_long'', e_field = field, e_row = row_index,
                 e_message = field @ '' exceeds maximum length of '' @ str_of_nat max_length,
                 e_value = None, e_value_length = Some (length v)\<rparr>]
             else [])) MAX_LENGTHS)"

definition amount_errors :: "csv_row \<Rightarrow> nat \<Rightarrow> row_error list" where
  "amount_errors row row_index =
     (case c_amount row of
        None \<Rightarrow> []
      | Some a \<Rightarrow>
          if a = [] then []
          else
            (case Decimal_of_str a of
               None \<Rightarrow>
                 [\<lparr>e_type = ''invalid_amount_format'', e_field = ''amount'', e_row = row_index,
                   e_message = ''Amount must be a valid decimal number'',
                   e_value = Some a, e_value_length = None\<rparr>]
             | Some d \<Rightarrow>
                 (case dec_negative d of
                    None \<Rightarrow>
                      [\<lparr>e_type = ''invalid_amount_format'', e_field = ''amount'',
                        e_row = row_index,
                        e_message = ''Amount must be a valid decimal number'',
                        e_value = Some a, e_value_length = None\<rparr>]
                  | Some True \<Rightarrow>
                      [\<lparr>e_type = ''invalid_amount'', e_field = ''amount'', e_row = row_index,
                        e_message = ''Amount cannot be negative'',
                        e_value = Some a, e_value_length = None\<rparr>]
                  | Some False \<Rightarrow> [])))"

text \<open>The status check of \<open>_validate_row\<close>: the cell as it is read, tested for
  membership in \<open>VALID_STATUSES\<close>. (Python prints the set in an order that varies from
  run to run; the message lists it in the order of the source.)\<close>

definition statuses_text :: string where
  "statuses_text =
     ''{'' @ concat (map (\<lambda>s. [CHR 0x27] @ s @ [CHR 0x27] @ '', '') (butlast VALID_STATUSES))
       @ [CHR 0x27] @ last VALID_STATUSES @ [CHR 0x27] @ ''}''"

definition status_errors :: "csv_row \<Rightarrow> nat \<Rightarrow> row_error list" where
  "status_errors row row_index =
     (case c_status row of
        None \<Rightarrow> []
      | Some s \<Rightarrow>
          if s \<noteq> [] \<and> s \<notin> set VALID_STATUSES then
            [\<lparr>e_type = ''invalid_status'', e_field = ''status'', e_row = row_index,
              e_message = ''Invalid status. Must be one of: '' @ statuses_text,
              e_value = Some s, e_value_length = None\<rparr>]
          else [])"

definition is_valid_date_format :: "parsers \<Rightarrow> string option \<Rightarrow> bool" where
  "is_valid_date_format L date_str =
     (case date_str of
        None \<Rightarrow> True
      | Some s \<Rightarrow> if s = [] then True else to_datetime L s \<noteq> None)"

definition date_errors :: "parsers \<Rightarrow> csv_row \<Rightarrow> nat \<Rightarrow> row_error list" where
  "date_errors L row row_index =
     concat (map (\<lambda>(date_field, sel).
        if truthy (sel row) \<and> \<not> is_valid_date_format L (sel row) then
          [\<lparr>e_type = ''invalid_date_format'', e_field = date_field, e_row = row_index,
            e_message = date_field @ '' has invalid date format'',
            e_value = sel row, e_value_length = None\<rparr>]
        else []) [(''created_at'', c_created_at), (''paid_at'', c_paid_at)])"

text \<open>\<open>DataLoader._validate_row\<close>: the errors of one row, in the order of the checks.\<close>

definition validate_row :: "parsers \<Rightarrow> csv_row \<Rightarrow> nat \<Rightarrow> row_error list" where
  "validate_row L row row_index =
     (if \<not> truthy (c_id row)
      then [missing_required_field ''id'' ''ID is required'' row_index] else [])
     @ (if \<not> truthy (c_company_id row)
        then [missing_required_field ''company_id'' ''Company ID is required'' row_index]
        else [])
     @ length_errors row row_index
     @ amount_errors row row_index
     @ status_errors row row_index
     @ date_errors L row row_index"

text \<open>A frame of the loader: its rows with their index labels. \<open>df.duplicated(subset=['id'])\<close>
  marks every row whose id occurred in an earlier row.\<close>

type_synonym csv_frame = "(nat \<times> csv_row) list"

fun count_duplicated :: "string option list \<Rightarrow> string option list \<Rightarrow> nat" where
  "count_duplicated seen [] = 0"
| "count_duplicated seen (k # ks) =
     (if k \<in> set seen then Suc (count_duplicated seen ks)
      else count_duplicated (seen @ [k]) ks)"

text \<open>\<open>DataLoader.validate_data_integrity\<close>.\<close>

definition validate_data_integrity :: "parsers \<Rightarrow> csv_frame \<Rightarrow> ValidationReport" where
  "validate_data_integrity L df =
     (let dups = count_duplicated [] (map (\<lambda>(idx, row). c_id row) df);
          ws = (if dups > 0
                then [\<lparr>w_type = ''duplicates'',
                       w_message = ''Found '' @ str_of_nat dups @ '' duplicate IDs'',
                       w_count = dups\<rparr>]
                else []);
          per_row = map (\<lambda>(idx, row). validate_row L row idx) df;
          valid = length (filter (\<lambda>es. es = []) per_row)
      in \<lparr>total_rows = length df, valid_rows = valid, invalid_rows = length df - valid,
          report_errors = concat per_row, report_warnings = ws, duplicates = dups\<rparr>)"



section \<open>Tables and the session\<close>

text \<open>
  The objects of \<open>models.py\<close>. A cell of a frame of the transformer holds a text, a
  decimal or a datetime, or is missing; the objects built from such cells keep them as
  they are. A missing date is \<open>DNull\<close> (\<open>None\<close> or \<open>NaN\<close>) or \<open>DNaT\<close> (the \<open>NaT\<close> of a
  \<open>datetime64\<close> column): \<open>pd.isna\<close> holds of both, and every step on a frame tests a
  missing date with \<open>pd.isna\<close> only, so the steps treat the two alike and write \<open>DNull\<close>
  for a missing date. The two differ when the cell is sent to the database: \<open>None\<close> is
  stored as \<open>NULL\<close>, \<open>NaT\<close> is refused.
\<close>

datatype amount_cell = ANull | AStr string | ADec decimal

datatype date_cell = DNull | DNaT | DStr string | DDate datetime

definition date_isna :: "date_cell \<Rightarrow> bool" where
  "date_isna d = (d = DNull \<or> d = DNaT)"

record RawTransaction =
  t_id :: "string option"
  t_name :: "string option"
  t_company_id :: "string option"
  t_amount :: "decimal option"
  t_status :: "string option"
  t_created_at :: "string option"
  t_paid_at :: "string option"

record Company =
  co_company_id :: "string option"
  co_company_name :: "string option"
  co_created_at :: date_cell
  co_updated_at :: date_cell

record Charge =
  ch_id :: "string option"
  ch_company_id :: "string option"
  ch_amount :: amount_cell
  ch_status :: "string option"
  ch_created_at :: date_cell
  ch_updated_at :: date_cell

record database =
  raw_transactions :: "RawTransaction list"
  companies :: "Company list"
  charges :: "Charge list"

text \<open>
  A session inside one transaction: the tables as they were when the transaction began,
  the tables as the transaction sees them (with what it has flushed), and the objects
  added and not yet flushed. The session is made with \<open>autoflush=False\<close>, so a query
  reads the flushed tables only.
\<close>

record session =
  at_begin :: database
  flushed :: database
  new_raw :: "RawTransaction list"
  new_companies :: "Company list"
  new_charges :: "Charge list"

definition begin_session :: "database \<Rightarrow> session" where
  "begin_session db = \<lparr>at_begin = db, flushed = db, new_raw = [], new_companies = [], new_charges = []\<rparr>"

definition fits :: "nat \<Rightarrow> string option \<Rightarrow> bool" where
  "fits n v = (case v of None \<Rightarrow> True | Some s \<Rightarrow> length s \<le> n)"

definition is_datetime :: "date_cell \<Rightarrow> bool" where
  "is_datetime d = (case d of DDate t \<Rightarrow> True | _ \<Rightarrow> False)"

definition is_decimal :: "amount_cell \<Rightarrow> bool" where
  "is_decimal a = (case a of ADec d \<Rightarrow> True | _ \<Rightarrow> False)"

text \<open>
  What the declarations of \<open>models.py\<close> ask of a row to be inserted: a primary key that
  is present and new, the text lengths, \<open>nullable=False\<close>, the foreign key of a charge,
  a decimal in the \<open>DECIMAL\<close> column, and in a \<open>DateTime\<close> column a datetime or a text
  that the server casts to a timestamp; \<open>NaT\<close> is refused in any column, and \<open>None\<close> is
  stored as \<open>NULL\<close> in a column that allows it. The table keeps the object as it was
  added. The range and the rounding of \<open>DECIMAL(16, 2)\<close> are not modelled.
\<close>

definition timestamp_ok :: "parsers \<Rightarrow> date_cell \<Rightarrow> bool" where
  "timestamp_ok L d =
     (case d of
        DDate t \<Rightarrow> True
      | DStr v \<Rightarrow> cast_timestamp L v \<noteq> None
      | DNull \<Rightarrow> False
      | DNaT \<Rightarrow> False)"

definition raw_ok :: "RawTransaction list \<Rightarrow> RawTransaction \<Rightarrow> bool" where
  "raw_ok table t =
     (t_id t \<noteq> None \<and> t_id t \<notin> set (map t_id table) \<and> fits 64 (t_id t)
      \<and> fits 130 (t_name t) \<and> fits 64 (t_company_id t) \<and> fits 50 (t_status t)
      \<and> fits 50 (t_created_at t) \<and> fits 50 (t_paid_at t))"

definition company_ok :: "parsers \<Rightarrow> Company list \<Rightarrow> Company \<Rightarrow> bool" where
  "company_ok L table c =
     (co_company_id c \<noteq> None \<and> co_company_id c \<notin> set (map co_company_id table)
      \<and> fits 24 (co_company_id c)
      \<and> co_company_name c \<noteq> None \<and> fits 130 (co_company_name c)
      \<and> timestamp_ok L (co_created_at c)
      \<and> (co_updated_at c = DNull \<or> timestamp_ok L (co_updated_at c)))"

definition charge_ok :: "parsers \<Rightarrow> Company list \<Rightarrow> Charge list \<Rightarrow> Charge \<Rightarrow> bool" where
  "charge_ok L comps table c =
     (ch_id c \<noteq> None \<and> ch_id c \<notin> set (map ch_id table) \<and> fits 24 (ch_id c)
      \<and> ch_company_id c \<noteq> None \<and> fits 24 (ch_company_id c)
      \<and> ch_company_id c \<in> set (map co_company_id comps)
      \<and> is_decimal (ch_amount c)
      \<and> ch_status c \<noteq> None \<and> fits 30 (ch_status c)
      \<and> timestamp_ok L (ch_created_at c)
      \<and> (ch_updated_at c = DNull \<or> timestamp_ok L (ch_updated_at c)))"

text \<open>Inserting the pending rows one after the other; \<open>None\<close> when one is refused.\<close>

fun insert_all :: "('a list \<Rightarrow> 'a \<Rightarrow> bool) \<Rightarrow> 'a list \<Rightarrow> 'a list \<Rightarrow> 'a list option" where
  "insert_all ok table [] = Some table"
| "insert_all ok table (x # xs) =
     (if ok table x then insert_all ok (table @ [x]) xs else None)"

text \<open>\<open>session.flush()\<close>: companies are inserted before the charges that refer to them.
  A refused row raises an \<open>SQLAlchemyError\<close>.\<close>

definition flush :: "parsers \<Rightarrow> session \<Rightarrow> exn + session" where
  "flush L s =
     (case insert_all raw_ok (raw_transactions (flushed s)) (new_raw s) of
        None \<Rightarrow> Inl (SQLAlchemyError ''raw_transactions'')
      | Some raws \<Rightarrow>
          (case insert_all (company_ok L) (companies (flushed s)) (new_companies s) of
             None \<Rightarrow> Inl (SQLAlchemyError ''companies'')
           | Some comps \<Rightarrow>
               (case insert_all (charge_ok L comps) (charges (flushed s)) (new_charges s) of
                  None \<Rightarrow> Inl (SQLAlchemyError ''charges'')
                | Some chs \<Rightarrow>
                    Inr (s\<lparr>flushed := \<lparr>raw_transactions = raws, companies = comps, charges = chs\<rparr>,
                           new_raw := [], new_companies := [], new_charges := []\<rparr>))))"

text \<open>\<open>session.rollback()\<close>: the transaction's writes and the pending objects are gone.\<close>

definition rollback :: "session \<Rightarrow> session" where
  "rollback s = s\<lparr>flushed := at_begin s, new_raw := [], new_companies := [], new_charges := []\<rparr>"

section \<open>Loader: persisting the rows\<close>

record loading_error =
  l_type :: string
  l_row :: nat
  l_message :: string
  l_data :: csv_row

definition keep :: "string option \<Rightarrow> string option" where
  "keep v = (if truthy v then v else None)"

text \<open>\<open>DataLoader._row_to_raw_transaction\<close>: an amount that does not parse makes the
  conversion raise a \<open>ValueError\<close>.\<close>

definition row_to_raw_transaction :: "csv_row \<Rightarrow> exn + RawTransaction" where
  "row_to_raw_transaction row =
     (case (case c_amount row of
              None \<Rightarrow> Inr None
            | Some a \<Rightarrow>
                if a = [] then Inr None
                else
                  (case Decimal_of_str a of
                     None \<Rightarrow> Inl (ValueError ''Failed to convert row to RawTransaction'')
                   | Some d \<Rightarrow> Inr (Some d))) of
        Inl e \<Rightarrow> Inl e
      | Inr amount \<Rightarrow>
          Inr \<lparr>t_id = keep (c_id row), t_name = keep (c_name row),
               t_company_id = keep (c_company_id row), t_amount = amount,
               t_status = keep (c_status row), t_created_at = keep (c_created_at row),
               t_paid_at = keep (c_paid_at row)\<rparr>)"

definition exn_message :: "exn \<Rightarrow> string" where
  "exn_message e =
     (case e of
        InvalidAmountError m \<Rightarrow> m | InvalidStatusError m \<Rightarrow> m | TypeError \<Rightarrow> ''TypeError''
      | KeyError m \<Rightarrow> m | ValueError m \<Rightarrow> m | SQLAlchemyError m \<Rightarrow> m
      | DatabaseTransactionError m \<Rightarrow> m)"

text \<open>
  \<open>DataLoader._load_rows_individually\<close>. \<open>idx\<close> is the index label of the row in the
  frame it was cut from, and the error records \<open>batch_start_idx + idx\<close>. Only an
  \<open>SQLAlchemyError\<close> is caught: a \<open>ValueError\<close> of the conversion leaves the function.
\<close>

fun load_rows_individually ::
  "parsers \<Rightarrow> session \<Rightarrow> csv_frame \<Rightarrow> nat \<Rightarrow> exn + (session \<times> nat \<times> loading_error list)"
  where
  "load_rows_individually L s [] batch_start_idx = Inr (s, 0, [])"
| "load_rows_individually L s ((idx, row) # rest) batch_start_idx =
     (case row_to_raw_transaction row of
        Inl e \<Rightarrow> Inl e
      | Inr raw_transaction \<Rightarrow>
          (case flush L (s\<lparr>new_raw := new_raw s @ [raw_transaction]\<rparr>) of
             Inr s' \<Rightarrow>
               (case load_rows_individually L s' rest batch_start_idx of
                  Inl e \<Rightarrow> Inl e
                | Inr (s'', rows_loaded, individual_errors) \<Rightarrow>
                    Inr (s'', Suc rows_loaded, individual_errors))
           | Inl e \<Rightarrow>
               (case load_rows_individually L
                       (rollback (s\<lparr>new_raw := new_raw s @ [raw_transaction]\<rparr>))
                       rest batch_start_idx of
                  Inl e' \<Rightarrow> Inl e'
                | Inr (s'', rows_loaded, individual_errors) \<Rightarrow>
                    Inr (s'', rows_loaded,
                         \<lparr>l_type = ''individual_row_error'', l_row = batch_start_idx + idx,
                          l_message = exn_message e, l_data = row\<rparr> # individual_errors))))"

text \<open>The first loop of \<open>_load_batch_to_database\<close>: convert and add every row; a row
  that does not convert is recorded and left out.\<close>

fun add_batch ::
  "session \<Rightarrow> csv_frame \<Rightarrow> nat \<Rightarrow> session \<times> nat \<times> loading_error list" where
  "add_batch s [] batch_start_idx = (s, 0, [])"
| "add_batch s ((idx, row) # rest) batch_start_idx =
     (case row_to_raw_transaction row of
        Inr raw_transaction \<Rightarrow>
          (case add_batch (s\<lparr>new_raw := new_raw s @ [raw_transaction]\<rparr>) rest batch_start_idx of
             (s', rows_loaded, batch_errors) \<Rightarrow> (s', Suc rows_loaded, batch_errors))
      | Inl e \<Rightarrow>
          (case add_batch s rest batch_start_idx of
             (s', rows_loaded, batch_errors) \<Rightarrow>
               (s', rows_loaded,
                \<lparr>l_type = ''row_conversion_error'', l_row = batch_start_idx + idx,
                 l_message = exn_message e, l_data = row\<rparr> # batch_errors)))"

text \<open>\<open>DataLoader._load_batch_to_database\<close>: when the flush of the batch fails, the
  session is rolled back and the rows are loaded one by one; the count of the batch is
  then the count of the rows loaded one by one.\<close>

definition load_batch_to_database ::
  "parsers \<Rightarrow> session \<Rightarrow> csv_frame \<Rightarrow> nat \<Rightarrow> exn + (session \<times> nat \<times> loading_error list)"
  where
  "load_batch_to_database L s batch_df batch_start_idx =
     (case add_batch s batch_df batch_start_idx of
        (s1, rows_loaded, batch_errors) \<Rightarrow>
          (case flush L s1 of
             Inr s2 \<Rightarrow> Inr (s2, rows_loaded, batch_errors)
           | Inl e \<Rightarrow>
               (case load_rows_individually L (rollback s1) batch_df batch_start_idx of
                  Inl e' \<Rightarrow> Inl e'
                | Inr (s3, individual_loaded, individual_errors) \<Rightarrow>
                    Inr (s3, individual_loaded, batch_errors @ individual_errors))))"

text \<open>
  The loop of \<open>_load_dataframe_to_database\<close> over
  \<open>range(0, len(df), batch_size)\<close>: the batch is \<open>df.iloc[start_idx:end_idx]\<close>, whose rows
  keep the index labels they have in \<open>df\<close>. A \<open>batch_size\<close> of \<open>0\<close> makes \<open>range\<close>
  raise a \<open>ValueError\<close>. An exception that leaves the loop is raised again by the
  context manager of the transaction as a \<open>DatabaseTransactionError\<close>, which the
  \<open>except SQLAlchemyError\<close> of the function does not catch. The commit that ends the
  transaction is not part of the model.
\<close>

function load_batches ::
  "parsers \<Rightarrow> session \<Rightarrow> csv_frame \<Rightarrow> nat \<Rightarrow> nat
     \<Rightarrow> exn + (session \<times> nat \<times> loading_error list)" where
  "load_batches L s df batch_size start_idx =
     (if batch_size = 0 \<or> length df \<le> start_idx then Inr (s, 0, [])
      else
        (case load_batch_to_database L s (take batch_size (drop start_idx df)) start_idx of
           Inl e \<Rightarrow> Inl e
         | Inr (s', batch_loaded, batch_errors) \<Rightarrow>
             (case load_batches L s' df batch_size (start_idx + batch_size) of
                Inl e \<Rightarrow> Inl e
              | Inr (s'', rows_loaded, loading_errors) \<Rightarrow>
                  Inr (s'', batch_loaded + rows_loaded, batch_errors @ loading_errors))))"
  by pat_completeness auto
termination
  by (relation "measure (\<lambda>(L, s, df, batch_size, start_idx). length df - start_idx)") auto

declare load_batches.simps [simp del]

definition load_dataframe_to_database ::
  "parsers \<Rightarrow> database \<Rightarrow> csv_frame \<Rightarrow> nat \<Rightarrow> exn + (session \<times> nat \<times> loading_error list)"
  where
  "load_dataframe_to_database L db df batch_size =
     (case (if batch_size = 0 then Inl (ValueError ''range() arg 3 must not be zero'')
            else load_batches L (begin_session db) df batch_size 0) of
        Inl e \<Rightarrow> Inl (DatabaseTransactionError (exn_message e))
      | Inr loaded \<Rightarrow> Inr loaded)"

section \<open>Transformer: frames and validation\<close>

text \<open>
  A frame of the transformer: the names of its columns and its rows with their index
  labels. A row has a cell for each column the pipeline uses; the cell of a column the
  frame does not have is missing.
\<close>

record row =
  r_id :: "string option"
  r_name :: "string option"
  r_company_id :: "string option"
  r_amount :: amount_cell
  r_status :: "string option"
  r_created_at :: date_cell
  r_paid_at :: date_cell
  r_updated_at :: date_cell

record frame =
  columns :: "string list"
  rows :: "(nat \<times> row) list"

text \<open>An entry of \<open>data_quality_issues\<close>: the dictionary of a row that failed validation
  (row index, errors, warnings, original data) or the one of a business rule (type,
  message, count).\<close>

datatype issue =
    ValidationIssue nat "string list" "string list" row
  | RuleIssue string string nat


text \<open>\<open>TransformationReport\<close>, without the execution time.\<close>

record TransformationReport =
  total_raw_rows :: nat
  transformed_rows :: nat
  skipped_rows :: nat
  companies_created :: nat
  charges_created :: nat
  transformation_errors :: "issue list"
  data_quality_issues :: "issue list"

definition transformation_success_rate :: "TransformationReport \<Rightarrow> real" where
  "transformation_success_rate r =
     (if total_raw_rows r = 0 then 100.0
      else (real (transformed_rows r) / real (total_raw_rows r)) * 100)"

definition RAW_COLUMNS :: "string list" where
  "RAW_COLUMNS =
     [''id'', ''name'', ''company_id'', ''amount'', ''status'', ''created_at'', ''paid_at'']"

definition raw_to_row :: "RawTransaction \<Rightarrow> row" where
  "raw_to_row raw_tx =
     \<lparr>r_id = t_id raw_tx, r_name = t_name raw_tx, r_company_id = t_company_id raw_tx,
      r_amount = (case t_amount raw_tx of None \<Rightarrow> ANull | Some d \<Rightarrow> ADec d),
      r_status = t_status raw_tx,
      r_created_at = (case t_created_at raw_tx of None \<Rightarrow> DNull | Some v \<Rightarrow> DStr v),
      r_paid_at = (case t_paid_at raw_tx of None \<Rightarrow> DNull | Some v \<Rightarrow> DStr v),
      r_updated_at = DNull\<rparr>"

text \<open>\<open>DataTransformer._raw_data_to_dataframe\<close>, on a list that is not empty.\<close>

definition raw_data_to_dataframe :: "RawTransaction list \<Rightarrow> frame" where
  "raw_data_to_dataframe raw_data =
     \<lparr>columns = RAW_COLUMNS, rows = zip [0..<length raw_data] (map raw_to_row raw_data)\<rparr>"

text \<open>The stripped text of a cell, or \<open>None\<close> when
  \<open>pd.isna(v) or not str(v).strip()\<close>.\<close>

definition clean_text :: "string option \<Rightarrow> string option" where
  "clean_text v =
     (case v of None \<Rightarrow> None | Some s \<Rightarrow> if strip s = [] then None else Some (strip s))"

definition DATE_PATTERNS :: "string list" where
  "DATE_PATTERNS =
     [''%Y-%m-%d'', ''%Y-%m-%d %H:%M:%S'', ''%Y/%m/%d'', ''%Y/%m/%d %H:%M:%S'',
      ''%d-%m-%Y'', ''%d/%m/%Y'', ''%m/%d/%Y'', ''%Y-%m-%dT%H:%M:%S'',
      ''%Y-%m-%dT%H:%M:%SZ'']"

fun first_match :: "parsers \<Rightarrow> string \<Rightarrow> string list \<Rightarrow> datetime option" where
  "first_match L date_str [] = None"
| "first_match L date_str (pattern # patterns) =
     (case strptime L date_str pattern of
        Some parsed_date \<Rightarrow> Some parsed_date
      | None \<Rightarrow> first_match L date_str patterns)"

text \<open>
  \<open>DataTransformer._parse_and_validate_date\<close>. A cell that already holds a datetime (of
  whole seconds) prints as text that the second pattern parses back to it.
\<close>

definition parse_text :: "parsers \<Rightarrow> string \<Rightarrow> string \<Rightarrow> datetime ValidationResult" where
  "parse_text L date_str field_name =
     (case first_match L date_str DATE_PATTERNS of
        Some parsed_date \<Rightarrow> set_cleaned_value parsed_date new_result
      | None \<Rightarrow>
          (case to_datetime L date_str of
             Some parsed_date \<Rightarrow>
               add_warning (field_name @ '' parsed with fallback method'')
                 (set_cleaned_value parsed_date new_result)
           | None \<Rightarrow>
               add_error (''Unable to parse '' @ field_name @ '': '' @ date_str) new_result))"

definition parse_and_validate_date ::
  "parsers \<Rightarrow> date_cell \<Rightarrow> string \<Rightarrow> datetime ValidationResult" where
  "parse_and_validate_date L date_value field_name =
     (case date_value of
        DDate t \<Rightarrow> set_cleaned_value t new_result
      | DNull \<Rightarrow>
          if field_name = ''created_at'' then add_error (field_name @ '' is required'') new_result
          else new_result
      | DNaT \<Rightarrow>
          if field_name = ''created_at'' then add_error (field_name @ '' is required'') new_result
          else new_result
      | DStr v \<Rightarrow>
          if strip v = [] then
            (if field_name = ''created_at''
             then add_error (field_name @ '' is required'') new_result
             else new_result)
          else parse_text L (strip v) field_name)"

text \<open>
  The steps of \<open>DataTransformer._validate_row_for_transformation\<close>, each on the pair of
  the result and the cleaned row built so far.
\<close>

type_synonym checked = "row ValidationResult \<times> row"

definition check_id :: "row \<Rightarrow> checked \<Rightarrow> checked" where
  "check_id row = (\<lambda>(result, cleaned_row).
     (case clean_text (r_id row) of
        None \<Rightarrow> (add_error ''ID is required'' result, cleaned_row)
      | Some cleaned_id \<Rightarrow>
          if length cleaned_id > 24
          then (add_warning ''ID truncated to 24 characters'' result,
                cleaned_row\<lparr>r_id := Some (take 24 cleaned_id)\<rparr>)
          else (result, cleaned_row\<lparr>r_id := Some cleaned_id\<rparr>)))"

definition check_company_id :: "row \<Rightarrow> checked \<Rightarrow> checked" where
  "check_company_id row = (\<lambda>(result, cleaned_row).
     (case clean_text (r_company_id row) of
        None \<Rightarrow> (add_error ''Company ID is required'' result, cleaned_row)
      | Some cleaned_company_id \<Rightarrow>
          if length cleaned_company_id > 24
          then (add_warning ''Company ID truncated to 24 characters'' result,
                cleaned_row\<lparr>r_company_id := Some (take 24 cleaned_company_id)\<rparr>)
          else (result, cleaned_row\<lparr>r_company_id := Some cleaned_company_id\<rparr>)))"

definition check_name :: "row \<Rightarrow> checked \<Rightarrow> checked" where
  "check_name row = (\<lambda>(result, cleaned_row).
     (case clean_text (r_name row) of
        None \<Rightarrow> (add_warning ''Company name is missing'' result,
                  cleaned_row\<lparr>r_name := Some ''Unknown Company''\<rparr>)
      | Some cleaned_name \<Rightarrow>
          if length cleaned_name > 130
          then (add_warning ''Company name truncated to 130 characters'' result,
                cleaned_row\<lparr>r_name := Some (take 130 cleaned_name)\<rparr>)
          else (result, cleaned_row\<lparr>r_name := Some cleaned_name\<rparr>)))"

text \<open>\<open>pd.isna\<close> of an amount cell (a decimal NaN is missing too), and
  \<open>Decimal(str(amount))\<close>.\<close>

definition amount_isna :: "amount_cell \<Rightarrow> bool" where
  "amount_isna a = (a = ANull \<or> a = ADec NaN)"

definition Decimal_of_cell :: "amount_cell \<Rightarrow> decimal option" where
  "Decimal_of_cell a =
     (case a of ANull \<Rightarrow> None | AStr v \<Rightarrow> Decimal_of_str v | ADec d \<Rightarrow> Some d)"

definition amount_text :: "amount_cell \<Rightarrow> string" where
  "amount_text a = (case a of AStr v \<Rightarrow> v | _ \<Rightarrow> [])"

definition check_amount :: "row \<Rightarrow> checked \<Rightarrow> checked" where
  "check_amount row = (\<lambda>(result, cleaned_row).
     if amount_isna (r_amount row) then (add_error ''Amount is required'' result, cleaned_row)
     else
       (case Decimal_of_cell (r_amount row) of
          None \<Rightarrow>
            (add_error (''Invalid amount format: '' @ amount_text (r_amount row)) result,
             cleaned_row)
        | Some amount \<Rightarrow>
            (case dec_negative amount of
               None \<Rightarrow>
                 (add_error (''Invalid amount format: '' @ amount_text (r_amount row)) result,
                  cleaned_row)
             | Some True \<Rightarrow> (add_error ''Amount cannot be negative'' result, cleaned_row)
             | Some False \<Rightarrow> (result, cleaned_row\<lparr>r_amount := ADec amount\<rparr>))))"

definition check_status :: "row \<Rightarrow> checked \<Rightarrow> checked" where
  "check_status row = (\<lambda>(result, cleaned_row).
     (case clean_text (r_status row) of
        None \<Rightarrow> (add_error ''Status is required'' result, cleaned_row)
      | Some stripped \<Rightarrow>
          (let cleaned_status = lower stripped
           in if cleaned_status \<notin> set VALID_STATUSES then
                (add_error (''Invalid status: '' @ cleaned_status @ ''. Valid statuses: ''
                            @ statuses_text) result,
                 cleaned_row)
              else if length cleaned_status > 30 then
                (add_warning ''Status truncated to 30 characters'' result,
                 cleaned_row\<lparr>r_status := Some (take 30 cleaned_status)\<rparr>)
              else (result, cleaned_row\<lparr>r_status := Some cleaned_status\<rparr>))))"

definition date_of :: "datetime option \<Rightarrow> date_cell" where
  "date_of v = (case v of None \<Rightarrow> DNull | Some t \<Rightarrow> DDate t)"

text \<open>The errors of \<open>created_at\<close> are appended to \<open>result.errors\<close> with \<open>extend\<close>, which
  leaves \<open>result.is_valid\<close> as it is.\<close>

definition check_created_at :: "parsers \<Rightarrow> row \<Rightarrow> checked \<Rightarrow> checked" where
  "check_created_at L row = (\<lambda>(result, cleaned_row).
     (let created_at_result = parse_and_validate_date L (r_created_at row) ''created_at''
      in if \<not> is_valid created_at_result
         then (result\<lparr>errors := errors result @ errors created_at_result\<rparr>, cleaned_row)
         else (result,
               cleaned_row\<lparr>r_created_at := date_of (cleaned_value created_at_result)\<rparr>)))"

definition date_present :: "date_cell \<Rightarrow> bool" where
  "date_present d =
     (case d of
        DNull \<Rightarrow> False | DNaT \<Rightarrow> False | DStr v \<Rightarrow> strip v \<noteq> [] | DDate t \<Rightarrow> True)"

definition check_paid_at :: "parsers \<Rightarrow> row \<Rightarrow> checked \<Rightarrow> checked" where
  "check_paid_at L row = (\<lambda>(result, cleaned_row).
     if date_present (r_paid_at row) then
       (let paid_at_result = parse_and_validate_date L (r_paid_at row) ''paid_at''
        in if \<not> is_valid paid_at_result
           then (result\<lparr>warnings := warnings result
                           @ map (\<lambda>error. ''paid_at: '' @ error) (errors paid_at_result)\<rparr>,
                 cleaned_row\<lparr>r_paid_at := DNull\<rparr>)
           else (result, cleaned_row\<lparr>r_paid_at := date_of (cleaned_value paid_at_result)\<rparr>))
     else (result, cleaned_row\<lparr>r_paid_at := DNull\<rparr>))"

definition validate_row_for_transformation ::
  "parsers \<Rightarrow> row \<Rightarrow> nat \<Rightarrow> row ValidationResult" where
  "validate_row_for_transformation L row row_index =
     (case (check_paid_at L row (check_created_at L row (check_status row (check_amount row
              (check_name row (check_company_id row (check_id row (new_result, row)))))))) of
        (result, cleaned_row) \<Rightarrow>
          if is_valid result then result\<lparr>cleaned_value := Some cleaned_row\<rparr> else result)"

text \<open>
  \<open>DataTransformer._validate_transformed_data\<close>: the rows whose result is valid are kept
  with their cleaned values and a new index; each other row gives an issue. With no valid
  row the frame returned is \<open>pd.DataFrame()\<close>, which has no column. A frame with rows
  that lacks one of the seven columns makes the first access raise a \<open>KeyError\<close>.
\<close>

fun validate_rows :: "parsers \<Rightarrow> (nat \<times> row) list \<Rightarrow> row list \<times> issue list" where
  "validate_rows L [] = ([], [])"
| "validate_rows L ((idx, row) # rest) =
     (let validation_result = validate_row_for_transformation L row idx
      in case validate_rows L rest of
           (kept_rows, validation_issues) \<Rightarrow>
             if is_valid validation_result then
               ((case cleaned_value validation_result of
                   Some cleaned \<Rightarrow> cleaned | None \<Rightarrow> row) # kept_rows,
                validation_issues)
             else
               (kept_rows,
                ValidationIssue idx (errors validation_result) (warnings validation_result) row
                  # validation_issues))"

definition validate_transformed_data ::
  "parsers \<Rightarrow> frame \<Rightarrow> exn + (frame \<times> issue list)" where
  "validate_transformed_data L df =
     (if rows df \<noteq> [] \<and> \<not> set RAW_COLUMNS \<subseteq> set (columns df)
      then Inl (KeyError ''column'')
      else
        (case validate_rows L (rows df) of
           (kept_rows, validation_issues) \<Rightarrow>
             Inr (if kept_rows = [] then \<lparr>columns = [], rows = []\<rparr>
                  else \<lparr>columns = columns df,
                        rows = zip [0..<length kept_rows] kept_rows\<rparr>,
                  validation_issues)))"



section \<open>Transformer: business rules\<close>

definition has_column :: "frame \<Rightarrow> string \<Rightarrow> bool" where
  "has_column df c = (c \<in> set (columns df))"

text \<open>\<open>drop_duplicates(subset=[key], keep='first')\<close>: a row is dropped when an earlier
  row has the same key (two missing keys are the same key).\<close>

fun drop_duplicates :: "('a \<Rightarrow> 'k) \<Rightarrow> 'k list \<Rightarrow> 'a list \<Rightarrow> 'a list" where
  "drop_duplicates key seen [] = []"
| "drop_duplicates key seen (x # xs) =
     (if key x \<in> set seen then drop_duplicates key seen xs
      else x # drop_duplicates key (key x # seen) xs)"

text \<open>Business rule 1.\<close>

definition rule_remove_duplicates :: "frame \<Rightarrow> exn + (frame \<times> issue list)" where
  "rule_remove_duplicates df =
     (if \<not> has_column df ''id'' then Inl (KeyError ''id'')
      else
        (let kept = drop_duplicates (\<lambda>(idx, r). r_id r) [] (rows df);
             duplicates_removed = length (rows df) - length kept
         in Inr (df\<lparr>rows := kept\<rparr>,
                 if duplicates_removed > 0
                 then [RuleIssue ''duplicates_removed''
                         (''Removed '' @ str_of_nat duplicates_removed
                          @ '' duplicate transactions'')
                         duplicates_removed]
                 else [])))"

text \<open>\<open>DataTransformer._standardize_company_name\<close> and business rule 2.\<close>

definition standardize_company_name :: "string option \<Rightarrow> string option" where
  "standardize_company_name company_name =
     (case clean_text company_name of
        None \<Rightarrow> Some ''Unknown Company''
      | Some name \<Rightarrow> Some (title (collapse_spaces name)))"

definition rule_company_names :: "frame \<Rightarrow> exn + frame" where
  "rule_company_names df =
     (if \<not> has_column df ''name'' then Inl (KeyError ''name'')
      else Inr (df\<lparr>rows := map (\<lambda>(idx, r). (idx, r\<lparr>r_name := standardize_company_name (r_name r)\<rparr>))
                                (rows df)\<rparr>))"

text \<open>
  Business rule 3. \<open>amount < Decimal('0.01')\<close> on one cell of the column: a missing
  cell compares false, and a text cannot be compared with a decimal (\<open>None\<close> is the
  \<open>TypeError\<close>).
\<close>

definition finite_value :: "bool \<Rightarrow> nat \<Rightarrow> int \<Rightarrow> rat" where
  "finite_value neg c e = (if neg then - 1 else 1) * of_nat c * pow10 e"

definition amount_small :: "amount_cell \<Rightarrow> bool option" where
  "amount_small a =
     (case a of
        ANull \<Rightarrow> Some False
      | AStr v \<Rightarrow> None
      | ADec d \<Rightarrow>
          (case d of
             Finite neg c e \<Rightarrow> Some (finite_value neg c e < 1 / 100)
           | Infinity neg \<Rightarrow> Some neg
           | NaN \<Rightarrow> Some False))"

definition one_cent :: decimal where
  "one_cent = Finite False 1 (- 2)"

definition rule_small_amounts :: "frame \<Rightarrow> exn + (frame \<times> issue list)" where
  "rule_small_amounts df =
     (if \<not> has_column df ''amount'' then Inl (KeyError ''amount'')
      else
        (let small_amounts = map (\<lambda>(idx, r). amount_small (r_amount r)) (rows df)
         in if None \<in> set small_amounts then Inl TypeError
            else
              (let n = length (filter (\<lambda>m. m = Some True) small_amounts)
               in if n > 0 then
                    Inr (df\<lparr>rows := map (\<lambda>(idx, r).
                                  (idx, if amount_small (r_amount r) = Some True
                                        then r\<lparr>r_amount := ADec one_cent\<rparr> else r)) (rows df)\<rparr>,
                         [RuleIssue ''small_amounts_adjusted''
                            (''Adjusted '' @ str_of_nat n @ '' amounts smaller than 0.01 to 0.01'')
                            n])
                  else Inr (df, []))))"

text \<open>
  Business rule 4. With a \<open>paid_at\<close> column the paid rows get their \<open>paid_at\<close> cell as
  \<open>updated_at\<close>; \<open>created_at\<close> is used when the frame has no \<open>paid_at\<close> column. The
  assignment creates the \<open>updated_at\<close> column when the frame has none, its other cells
  missing.
\<close>

definition add_column :: "string \<Rightarrow> string list \<Rightarrow> string list" where
  "add_column c cs = (if c \<in> set cs then cs else cs @ [c])"

definition set_updated_at :: "frame \<Rightarrow> (row \<Rightarrow> date_cell) \<Rightarrow> frame" where
  "set_updated_at df source =
     \<lparr>columns = add_column ''updated_at'' (columns df),
      rows = map (\<lambda>(idx, r).
                (idx, if r_status r = Some ''paid'' then r\<lparr>r_updated_at := source r\<rparr>
                      else if has_column df ''updated_at'' then r
                      else r\<lparr>r_updated_at := DNull\<rparr>)) (rows df)\<rparr>"

definition rule_updated_at :: "frame \<Rightarrow> exn + frame" where
  "rule_updated_at df =
     (if \<not> has_column df ''status'' then Inl (KeyError ''status'')
      else if has_column df ''paid_at'' then Inr (set_updated_at df r_paid_at)
      else if \<not> has_column df ''created_at'' then Inl (KeyError ''created_at'')
      else Inr (set_updated_at df r_created_at))"

text \<open>
  \<open>paid_at < created_at\<close> on the cells of one row, both present: two datetimes by time,
  two texts as Python orders strings; a text and a datetime cannot be compared (\<open>None\<close>
  is the \<open>TypeError\<close>).
\<close>

definition date_less :: "date_cell \<Rightarrow> date_cell \<Rightarrow> bool option" where
  "date_less a b =
     (case (a, b) of
        (DDate x, DDate y) \<Rightarrow> Some (x < y)
      | (DStr x, DStr y) \<Rightarrow> Some (x < y)
      | _ \<Rightarrow> None)"

text \<open>\<open>DataTransformer._validate_date_consistency\<close>, business rule 5: it returns issues
  and leaves the frame as it is.\<close>

definition validate_date_consistency :: "frame \<Rightarrow> exn + issue list" where
  "validate_date_consistency df =
     (if \<not> has_column df ''status'' then Inl (KeyError ''status'')
      else
        (let paid_df = filter (\<lambda>(idx, r). r_status r = Some ''paid'') (rows df)
         in if paid_df = [] then Inr []
            else if \<not> (has_column df ''created_at'' \<and> has_column df ''paid_at'')
            then Inl (KeyError ''created_at, paid_at'')
            else
              (let both_dates = filter (\<lambda>(idx, r). \<not> date_isna (r_created_at r)
                                                    \<and> \<not> date_isna (r_paid_at r))
                                  paid_df;
                   inconsistent = map (\<lambda>(idx, r). date_less (r_paid_at r) (r_created_at r))
                                    both_dates
               in if None \<in> set inconsistent then Inl TypeError
                  else
                    (let n = length (filter (\<lambda>m. m = Some True) inconsistent)
                     in if n > 0 then
                          Inr [RuleIssue ''date_consistency_error''
                                 (''Found '' @ str_of_nat n
                                  @ '' paid transactions where paid_at is before created_at'')
                                 n]
                        else Inr []))))"

text \<open>\<open>DataTransformer._apply_business_rules\<close>.\<close>

definition apply_business_rules :: "frame \<Rightarrow> exn + (frame \<times> issue list)" where
  "apply_business_rules df =
     (case rule_remove_duplicates df of
        Inl e \<Rightarrow> Inl e
      | Inr (df1, issues1) \<Rightarrow>
          (case rule_company_names df1 of
             Inl e \<Rightarrow> Inl e
           | Inr df2 \<Rightarrow>
               (case rule_small_amounts df2 of
                  Inl e \<Rightarrow> Inl e
                | Inr (df3, issues3) \<Rightarrow>
                    (case rule_updated_at df3 of
                       Inl e \<Rightarrow> Inl e
                     | Inr cleaned_df \<Rightarrow>
                         (case validate_date_consistency cleaned_df of
                            Inl e \<Rightarrow> Inl e
                          | Inr date_issues \<Rightarrow>
                              Inr (cleaned_df, issues1 @ issues3 @ date_issues))))))"

section \<open>Transformer: companies, charges and the transform\<close>

text \<open>\<open>DataTransformer._extract_companies\<close>; \<open>now\<close> is the value of \<open>datetime.now()\<close>.\<close>

definition extract_companies :: "datetime \<Rightarrow> frame \<Rightarrow> exn + Company list" where
  "extract_companies now df =
     (if \<not> (has_column df ''company_id'' \<and> has_column df ''name'')
      then Inl (KeyError ''company_id, name'')
      else Inr (map (\<lambda>(idx, r).
                  \<lparr>co_company_id = r_company_id r, co_company_name = r_name r,
                   co_created_at = DDate now, co_updated_at = DNull\<rparr>)
                (drop_duplicates (\<lambda>(idx, r). r_company_id r) [] (rows df))))"

definition CHARGE_COLUMNS :: "string list" where
  "CHARGE_COLUMNS =
     [''id'', ''company_id'', ''amount'', ''status'', ''created_at'', ''updated_at'']"

text \<open>
  \<open>DataTransformer._transform_charges\<close>: one charge for each row of the frame. The
  \<open>updated_at\<close> column is rebuilt from the values of the lambda, which gives \<open>None\<close> for a
  missing cell. pandas infers the type of the new column from these values: when at least
  one is present and every present one is a datetime, the column is \<open>datetime64\<close> and a
  \<open>None\<close> is stored as \<open>NaT\<close>; otherwise the column holds objects and a \<open>None\<close> stays
  \<open>None\<close>. \<open>_load_charges\<close> passes the cell of this column to the \<open>Charge\<close>. The
  \<open>created_at\<close> cell is passed as the frame has it: the column is \<open>nullable=False\<close>, so a
  missing one is refused whichever missing value it is.
\<close>

definition column_is_datetime :: "date_cell list \<Rightarrow> bool" where
  "column_is_datetime cells =
     (let present = filter (\<lambda>d. \<not> date_isna d) cells
      in present \<noteq> [] \<and> list_all is_datetime present)"

definition store_cell :: "bool \<Rightarrow> date_cell \<Rightarrow> date_cell" where
  "store_cell datetime_column d =
     (if date_isna d then (if datetime_column then DNaT else DNull) else d)"

definition transform_charges :: "frame \<Rightarrow> exn + Charge list" where
  "transform_charges df =
     (if \<not> set CHARGE_COLUMNS \<subseteq> set (columns df) then Inl (KeyError ''column'')
      else
        (let datetime_column = column_is_datetime (map (\<lambda>(idx, r). r_updated_at r) (rows df))
         in Inr (map (\<lambda>(idx, r).
                  \<lparr>ch_id = r_id r, ch_company_id = r_company_id r, ch_amount = r_amount r,
                   ch_status = r_status r, ch_created_at = r_created_at r,
                   ch_updated_at = store_cell datetime_column (r_updated_at r)\<rparr>) (rows df))))"

text \<open>
  \<open>DataTransformer._load_companies\<close>: a company is added when the query for its
  \<open>company_id\<close> finds no row (a missing id equals no stored id); the additions are
  counted and flushed at the end.
\<close>

definition company_exists :: "session \<Rightarrow> string option \<Rightarrow> bool" where
  "company_exists s company_id =
     (company_id \<noteq> None \<and> company_id \<in> set (map co_company_id (companies (flushed s))))"

fun add_companies :: "session \<Rightarrow> Company list \<Rightarrow> session \<times> nat" where
  "add_companies s [] = (s, 0)"
| "add_companies s (row # rest) =
     (if \<not> company_exists s (co_company_id row) then
        (case add_companies (s\<lparr>new_companies := new_companies s @ [row]\<rparr>) rest of
           (s', n) \<Rightarrow> (s', Suc n))
      else add_companies s rest)"

definition load_companies ::
  "parsers \<Rightarrow> session \<Rightarrow> Company list \<Rightarrow> exn + (session \<times> nat)" where
  "load_companies L s companies_df =
     (case add_companies s companies_df of
        (s1, n) \<Rightarrow> (case flush L s1 of Inl e \<Rightarrow> Inl e | Inr s2 \<Rightarrow> Inr (s2, n)))"

text \<open>\<open>DataTransformer._load_charges\<close>, the same for charges and their \<open>id\<close>.\<close>

definition charge_exists :: "session \<Rightarrow> string option \<Rightarrow> bool" where
  "charge_exists s charge_id =
     (charge_id \<noteq> None \<and> charge_id \<in> set (map ch_id (charges (flushed s))))"

fun add_charges :: "session \<Rightarrow> Charge list \<Rightarrow> session \<times> nat" where
  "add_charges s [] = (s, 0)"
| "add_charges s (row # rest) =
     (if \<not> charge_exists s (ch_id row) then
        (case add_charges (s\<lparr>new_charges := new_charges s @ [row]\<rparr>) rest of
           (s', n) \<Rightarrow> (s', Suc n))
      else add_charges s rest)"

definition load_charges ::
  "parsers \<Rightarrow> session \<Rightarrow> Charge list \<Rightarrow> exn + (session \<times> nat)" where
  "load_charges L s charges_df =
     (case add_charges s charges_df of
        (s1, n) \<Rightarrow> (case flush L s1 of Inl e \<Rightarrow> Inl e | Inr s2 \<Rightarrow> Inr (s2, n)))"

text \<open>The frame the loads work from and the issues found on the way: validation and
  business rules, each when requested.\<close>

definition prepare_frame ::
  "parsers \<Rightarrow> RawTransaction list \<Rightarrow> bool \<Rightarrow> bool \<Rightarrow> exn + (frame \<times> issue list)" where
  "prepare_frame L raw_data validate_data use_business_rules =
     (case (if validate_data then validate_transformed_data L (raw_data_to_dataframe raw_data)
            else Inr (raw_data_to_dataframe raw_data, [])) of
        Inl e \<Rightarrow> Inl e
      | Inr (df1, validation_issues) \<Rightarrow>
          (case (if use_business_rules then apply_business_rules df1 else Inr (df1, [])) of
             Inl e \<Rightarrow> Inl e
           | Inr (df2, business_rule_issues) \<Rightarrow>
               Inr (df2, validation_issues @ business_rule_issues)))"

definition transform_in_session ::
  "parsers \<Rightarrow> datetime \<Rightarrow> session \<Rightarrow> bool \<Rightarrow> bool \<Rightarrow> exn + (session \<times> TransformationReport)"
  where
  "transform_in_session L now s validate_data use_business_rules =
     (let raw_data = raw_transactions (flushed s)
      in case prepare_frame L raw_data validate_data use_business_rules of
           Inl e \<Rightarrow> Inl e
         | Inr (df, issues) \<Rightarrow>
             (case extract_companies now df of
                Inl e \<Rightarrow> Inl e
              | Inr companies_df \<Rightarrow>
                  (case load_companies L s companies_df of
                     Inl e \<Rightarrow> Inl e
                   | Inr (s1, n_companies) \<Rightarrow>
                       (case transform_charges df of
                          Inl e \<Rightarrow> Inl e
                        | Inr charges_df \<Rightarrow>
                            (case load_charges L s1 charges_df of
                               Inl e \<Rightarrow> Inl e
                             | Inr (s2, n_charges) \<Rightarrow>
                                 Inr (s2,
                                      \<lparr>total_raw_rows = length raw_data,
                                       transformed_rows = length charges_df,
                                       skipped_rows = length raw_data - length charges_df,
                                       companies_created = n_companies,
                                       charges_created = n_charges,
                                       transformation_errors = [],
                                       data_quality_issues = issues\<rparr>))))))"

text \<open>
  \<open>DataTransformer.transform_to_schema\<close> on the database \<open>db\<close>: the result is the
  database after the commit and the report. An exception inside the transaction rolls it
  back, and the context manager raises it again as a \<open>DatabaseTransactionError\<close>.
\<close>

definition zero_report :: TransformationReport where
  "zero_report =
     \<lparr>total_raw_rows = 0, transformed_rows = 0, skipped_rows = 0, companies_created = 0,
      charges_created = 0, transformation_errors = [], data_quality_issues = []\<rparr>"

definition transform_to_schema ::
  "parsers \<Rightarrow> datetime \<Rightarrow> database \<Rightarrow> bool \<Rightarrow> bool \<Rightarrow> exn + (database \<times> TransformationReport)"
  where
  "transform_to_schema L now db validate_data use_business_rules =
     (if raw_transactions db = [] then Inr (db, zero_report)
      else
        (case transform_in_session L now (begin_session db) validate_data use_business_rules of
           Inl e \<Rightarrow> Inl (DatabaseTransactionError (exn_message e))
         | Inr (s, report) \<Rightarrow> Inr (flushed s, report)))"

section \<open>Manager: data integrity\<close>

text \<open>
  The integrity part of \<open>DatabaseManager.get_data_distribution_statistics\<close>. The outer
  join of the charges with the companies, kept where the company is missing, has one row
  for each charge whose \<open>company_id\<close> equals that of no company; likewise for the
  companies with no charge.
\<close>

definition orphaned_charges :: "database \<Rightarrow> nat" where
  "orphaned_charges db =
     length (filter (\<lambda>c. \<not> list_ex (\<lambda>k. co_company_id k \<noteq> None
                                          \<and> co_company_id k = ch_company_id c) (companies db))
               (charges db))"

definition companies_without_charges :: "database \<Rightarrow> nat" where
  "companies_without_charges db =
     length (filter (\<lambda>k. \<not> list_ex (\<lambda>c. ch_company_id c \<noteq> None
                                          \<and> ch_company_id c = co_company_id k) (charges db))
               (companies db))"

record data_integrity =
  di_orphaned_charges :: nat
  di_companies_without_charges :: nat
  integrity_score :: int

definition get_data_integrity :: "database \<Rightarrow> data_integrity" where
  "get_data_integrity db =
     \<lparr>di_orphaned_charges = orphaned_charges db,
      di_companies_without_charges = companies_without_charges db,
      integrity_score =
        100 - (int (orphaned_charges db) * 10) - (int (companies_without_charges db) * 5)\<rparr>"



section \<open>Notions used in the proofs\<close>

text \<open>A session with nothing added and not yet flushed.\<close>

definition idle :: "session \<Rightarrow> bool" where
  "idle s = (new_raw s = [] \<and> new_companies s = [] \<and> new_charges s = [])"

text \<open>The \<open>updated_at\<close> cell rule 4 leaves in a row of the frame \<open>df\<close>.\<close>

definition expected_updated_at :: "frame \<Rightarrow> row \<Rightarrow> date_cell" where
  "expected_updated_at df r =
     (if r_status r = Some ''paid''
      then (if has_column df ''paid_at'' then r_paid_at r else r_created_at r)
      else if has_column df ''updated_at'' then r_updated_at r else DNull)"

section \<open>Example data\<close>

text \<open>The inputs at which the theorems below are evaluated.\<close>

definition company_c1 :: Company where
  "company_c1 =
     \<lparr>co_company_id = Some ''c1'', co_company_name = Some ''Acme Corp'',
      co_created_at = DDate 7, co_updated_at = DNull\<rparr>"

definition charge_a1 :: Charge where
  "charge_a1 =
     \<lparr>ch_id = Some ''a1'', ch_company_id = Some ''c1'',
      ch_amount = ADec (Finite False 1000 (- 2)), ch_status = Some ''paid'',
      ch_created_at = DDate 100, ch_updated_at = DDate 100\<rparr>"

definition db_consistent :: database where
  "db_consistent = \<lparr>raw_transactions = [], companies = [company_c1], charges = [charge_a1]\<rparr>"

definition db_orphan :: database where
  "db_orphan = \<lparr>raw_transactions = [], companies = [], charges = [charge_a1]\<rparr>"

definition empty_validation_report :: ValidationReport where
  "empty_validation_report =
     \<lparr>total_rows = 0, valid_rows = 0, invalid_rows = 0, report_errors = [],
      report_warnings = [], duplicates = 0\<rparr>"

definition sample_parsers :: parsers where
  "sample_parsers =
     \<lparr>strptime = (\<lambda>date_str pattern.
        if pattern = ''%Y-%m-%d''
        then map_of [(''2020-01-01'', 1577836800), (''2020-01-02'', 1577923200)] date_str
        else None),
      to_datetime = map_of [(''2020-01-01'', 1577836800), (''2020-01-02'', 1577923200)],
      cast_timestamp = map_of [(''2020-01-01'', 1577836800), (''2020-01-02'', 1577923200)]\<rparr>"

definition csv_row_of :: "string option \<Rightarrow> string \<Rightarrow> csv_row" where
  "csv_row_of i status =
     \<lparr>c_id = i, c_name = Some ''Acme'', c_company_id = Some ''c1'',
      c_amount = Some ''10.00'', c_status = Some status,
      c_created_at = Some ''2020-01-01'', c_paid_at = None\<rparr>"

definition three_rows :: csv_frame where
  "three_rows =
     [(0, csv_row_of (Some ''a1'') ''paid''), (1, csv_row_of (Some ''a2'') ''paid''),
      (2, csv_row_of None ''paid'')]"

definition empty_db :: database where
  "empty_db = \<lparr>raw_transactions = [], companies = [], charges = []\<rparr>"

definition raw_row_of :: "string \<Rightarrow> string \<Rightarrow> date_cell \<Rightarrow> date_cell \<Rightarrow> row" where
  "raw_row_of i status created paid =
     \<lparr>r_id = Some i, r_name = Some ''Acme'', r_company_id = Some ''c1'',
      r_amount = ADec (Finite False 1000 (- 2)), r_status = Some status,
      r_created_at = created, r_paid_at = paid, r_updated_at = DNull\<rparr>"

definition raw_of :: "string \<Rightarrow> string \<Rightarrow> string \<Rightarrow> string option \<Rightarrow> RawTransaction" where
  "raw_of i status created paid =
     \<lparr>t_id = Some i, t_name = Some ''Acme'', t_company_id = Some ''c1'',
      t_amount = Some (Finite False 1000 (- 2)), t_status = Some status,
      t_created_at = Some created, t_paid_at = paid\<rparr>"

definition db_two_raw :: database where
  "db_two_raw =
     \<lparr>raw_transactions =
        [raw_of ''a1'' ''paid'' ''2020-01-01'' (Some ''2020-01-02''),
         raw_of ''a2'' ''voided'' ''2020-01-02'' None],
      companies = [], charges = []\<rparr>"

definition db_paid_without_paid_at :: database where
  "db_paid_without_paid_at =
     \<lparr>raw_transactions = [raw_of ''a1'' ''paid'' ''2020-01-01'' None],
      companies = [], charges = []\<rparr>"


definition frame_of :: "row \<Rightarrow> frame" where
  "frame_of r = \<lparr>columns = RAW_COLUMNS, rows = [(0, r)]\<rparr>"

definition db_two_paid :: database where
  "db_two_paid =
     \<lparr>raw_transactions =
        [raw_of ''a1'' ''paid'' ''2020-01-01'' (Some ''2020-01-02''),
         raw_of ''a2'' ''paid'' ''2020-01-02'' (Some ''2020-01-02'')],
      companies = [], charges = []\<rparr>"

definition charge_of :: "string \<Rightarrow> date_cell \<Rightarrow> date_cell \<Rightarrow> Charge" where
  "charge_of i created updated =
     \<lparr>ch_id = Some i, ch_company_id = Some ''c1'',
      ch_amount = ADec (Finite False 1000 (- 2)), ch_status = Some ''paid'',
      ch_created_at = created, ch_updated_at = updated\<rparr>"

definition company_acme :: Company where
  "company_acme =
     \<lparr>co_company_id = Some ''c1'', co_company_name = Some ''Acme'',
      co_created_at = DDate 1580000000, co_updated_at = DNull\<rparr>"

definition db_two_paid_transformed :: database where
  "db_two_paid_transformed =
     \<lparr>raw_transactions = raw_transactions db_two_paid,
      companies = [company_acme],
      charges =
        [charge_of ''a1'' (DDate 1577836800) (DDate 1577923200),
         charge_of ''a2'' (DDate 1577923200) (DDate 1577923200)]\<rparr>"

definition db_two_paid_transformed_unvalidated :: database where
  "db_two_paid_transformed_unvalidated =
     \<lparr>raw_transactions = raw_transactions db_two_paid,
      companies = [company_acme],
      charges =
        [charge_of ''a1'' (DStr ''2020-01-01'') (DStr ''2020-01-02''),
         charge_of ''a2'' (DStr ''2020-01-02'') (DStr ''2020-01-02'')]\<rparr>"

definition report_two_paid :: TransformationReport where
  "report_two_paid =
     \<lparr>total_raw_rows = 2, transformed_rows = 2, skipped_rows = 0, companies_created = 1,
      charges_created = 2, transformation_errors = [], data_quality_issues = []\<rparr>"

definition cleaned_frame_of :: "row \<Rightarrow> frame" where
  "cleaned_frame_of r =
     \<lparr>columns = RAW_COLUMNS @ [''updated_at''], rows = [(0, r\<lparr>r_updated_at := r_paid_at r\<rparr>)]\<rparr>"

definition paid_in_order :: row where
  "paid_in_order = raw_row_of ''a1'' ''paid'' (DDate 1577836800) (DDate 1577923200)"


section \<open>Properties\<close>

subsection \<open>Integrity score\<close>

text \<open>
  C3. The integrity score of the distribution statistics is exactly 100 when there is no
  orphaned charge and no company without charges, and it is strictly less than 100 as
  soon as one of the two counts is positive: the score is 100 minus 10 for each orphaned
  charge and minus 5 for each company without charges.
\<close>

theorem integrity_score_100_iff_clean:
  "(orphaned_charges db = 0 \<and> companies_without_charges db = 0
      \<longrightarrow> integrity_score (get_data_integrity db) = 100)
   \<and> (0 < orphaned_charges db \<or> 0 < companies_without_charges db
      \<longrightarrow> integrity_score (get_data_integrity db) < 100)
   \<and> integrity_score (get_data_integrity db)
       = 100 - 10 * int (orphaned_charges db) - 5 * int (companies_without_charges db)"
  by (auto simp: get_data_integrity_def)

theorem integrity_score_100_iff_clean_witness:
  "orphaned_charges db_consistent = 0 \<and> companies_without_charges db_consistent = 0
   \<and> integrity_score (get_data_integrity db_consistent) = 100
   \<and> 0 < orphaned_charges db_orphan
   \<and> integrity_score (get_data_integrity db_orphan) < 100"
proof -
  have clean: "orphaned_charges db_consistent = 0 \<and> companies_without_charges db_consistent = 0"
    by (simp add: orphaned_charges_def companies_without_charges_def db_consistent_def
        company_c1_def charge_a1_def)
  have orphan: "0 < orphaned_charges db_orphan"
    by (simp add: orphaned_charges_def db_orphan_def)
  from clean orphan integrity_score_100_iff_clean [of db_consistent]
    integrity_score_100_iff_clean [of db_orphan]
  show ?thesis by blast
qed

subsection \<open>Success rates of the reports\<close>

text \<open>
  C9. The two reports treat the empty input in opposite ways: with \<open>total_rows = 0\<close> the
  success rate of a \<open>ValidationReport\<close> is 0.0, and with \<open>total_raw_rows = 0\<close> the
  transformation success rate of a \<open>TransformationReport\<close> is 100.0.
\<close>

theorem empty_input_success_rates:
  "(total_rows v = 0 \<longrightarrow> success_rate v = 0)
   \<and> (total_raw_rows t = 0 \<longrightarrow> transformation_success_rate t = 100)"
  by (simp add: success_rate_def transformation_success_rate_def)

theorem empty_input_success_rates_witness:
  "total_rows empty_validation_report = 0 \<and> success_rate empty_validation_report = 0
   \<and> total_raw_rows zero_report = 0 \<and> transformation_success_rate zero_report = 100"
proof -
  have v: "total_rows empty_validation_report = 0"
    by (simp add: empty_validation_report_def)
  have t: "total_raw_rows zero_report = 0"
    by (simp add: zero_report_def)
  from v t empty_input_success_rates [of empty_validation_report zero_report]
  show ?thesis by blast
qed



subsection \<open>Amount validation\<close>

lemma Decimal_of_str_0001: "Decimal_of_str ''0.001'' = Some (Finite False 1 (- 3))"
  by code_simp

lemma Decimal_of_str_0000: "Decimal_of_str ''0.000'' = Some (Finite False 0 (- 3))"
  by code_simp

lemma Decimal_of_str_minus_1: "Decimal_of_str ''-1'' = Some (Finite True 1 0)"
  by code_simp

lemma Decimal_of_str_not_a_number: "Decimal_of_str ''not_a_number'' = None"
  by code_simp

lemma ndigits_1: "ndigits (Suc 0) = 1"
  by (simp add: ndigits.simps)

lemma ndigits_0: "ndigits 0 = 1"
  by (simp add: ndigits.simps)

lemma round_half_even_1_1: "round_half_even (Suc 0) (Suc 0) = 0"
  by (simp add: round_half_even_def)

text \<open>The rounded coefficient is a nearest one: it is off by at most half a unit of the
  last digit kept.\<close>

lemma round_half_even_nearest:
  "2 * \<bar>int (round_half_even c k) * 10 ^ k - int c\<bar> \<le> 10 ^ k"
proof -
  define P where "P = (10::nat) ^ k"
  define q where "q = c div P"
  define r where "r = c mod P"
  have P: "0 < P" by (simp add: P_def)
  have c: "c = q * P + r" by (simp add: q_def r_def)
  have r: "r < P" using P by (simp add: r_def)
  have P10: "(10::int) ^ k = int P" by (simp add: P_def)
  show ?thesis
  proof (cases "2 * r > P \<or> (2 * r = P \<and> odd q)")
    case True
    then have v: "round_half_even c k = q + 1"
      by (simp add: round_half_even_def Let_def P_def q_def r_def)
    have "int (q + 1) * int P - int c = int P - int r"
      by (simp add: c algebra_simps)
    moreover have "2 * (int P - int r) \<le> int P" using True by auto
    moreover have "0 \<le> int P - int r" using r by simp
    ultimately show ?thesis unfolding v P10 by simp
  next
    case False
    then have v: "round_half_even c k = q"
      by (simp add: round_half_even_def Let_def P_def q_def r_def)
    have "int q * int P - int c = - int r"
      by (simp add: c algebra_simps)
    moreover have "2 * int r \<le> int P" using False by auto
    ultimately show ?thesis unfolding v P10 by simp
  qed
qed

text \<open>
  C4, as the code has it. For every amount text that parses to a positive finite decimal
  with more than 2 fractional digits (exponent below \<open>-2\<close>) whose rounded value fits the
  28 digits of the context, \<open>validate_amount\<close> succeeds, adds the rounding warning and
  returns the value at exponent \<open>-2\<close> with the coefficient rounded half to even, a
  nearest value with 2 fractional digits. (At \<open>"0.001"\<close> this is \<open>0.00\<close>.)
\<close>

theorem validate_amount_rounds_to_cents:
  assumes "Decimal_of_str a = Some (Finite False c e)" and "0 < c" and "e < - 2"
    and "int (ndigits c) + e + 2 \<le> int prec"
    and "ndigits (round_half_even c (nat (- 2 - e))) \<le> prec"
  shows "validate_amount (Some a) allow_zero =
           Inr \<lparr>is_valid = True, errors = [], warnings = [rounding_warning],
                cleaned_value = Some (Finite False (round_half_even c (nat (- 2 - e))) (- 2))\<rparr>
         \<and> 2 * \<bar>int (round_half_even c (nat (- 2 - e))) * 10 ^ nat (- 2 - e) - int c\<bar>
             \<le> 10 ^ nat (- 2 - e)"
  using assms round_half_even_nearest [of c "nat (- 2 - e)"]
  by (simp add: validate_amount_def new_result_def add_warning_def set_cleaned_value_def)

theorem validate_amount_rounds_to_cents_witness:
  "validate_amount (Some ''0.001'') False =
     Inr \<lparr>is_valid = True, errors = [], warnings = [rounding_warning],
          cleaned_value = Some (Finite False 0 (- 2))\<rparr>"
proof -
  have pos: "0 < Suc 0" by simp
  have small: "(- 3::int) < - 2" by simp
  have fits: "int (ndigits (Suc 0)) + (- 3) + 2 \<le> int prec"
    by (simp add: ndigits_1 prec_def)
  have fits': "ndigits (round_half_even (Suc 0) (nat (- 2 - (- 3)))) \<le> prec"
    by (simp add: round_half_even_1_1 ndigits_0 prec_def)
  have parse: "Decimal_of_str ''0.001'' = Some (Finite False (Suc 0) (- 3))"
    by (simp add: Decimal_of_str_0001)
  from validate_amount_rounds_to_cents [OF parse pos small fits fits', of False]
  show ?thesis by (simp add: round_half_even_1_1)
qed

text \<open>
  C4 as stated fails: \<open>validate_amount("0.001")\<close> succeeds with a warning, but its cleaned
  value is \<open>0.00\<close>, which is zero and not \<open>0.01\<close>; and \<open>"0.000"\<close>, a non-negative decimal
  with three fractional digits, is refused with \<open>InvalidAmountError\<close>.
\<close>

theorem validate_amount_0001_is_not_one_cent:
  "validate_amount (Some ''0.001'') False =
     Inr \<lparr>is_valid = True, errors = [], warnings = [rounding_warning],
          cleaned_value = Some (Finite False 0 (- 2))\<rparr>
   \<and> dec_value (Finite False 0 (- 2)) = Some 0
   \<and> dec_value (Finite False 0 (- 2)) \<noteq> Some (1 / 100)
   \<and> validate_amount (Some ''0.000'') False = Inl (InvalidAmountError ''Amount cannot be zero'')"
  by (simp add: validate_amount_def Decimal_of_str_0001 Decimal_of_str_0000 ndigits_1
      ndigits_0 round_half_even_1_1 prec_def new_result_def add_warning_def
      set_cleaned_value_def)

text \<open>
  C6, as the code has it. For every amount text that does not parse or is negative,
  \<open>validate_amount\<close> raises \<open>InvalidAmountError\<close>: the error is thrown, not returned. Only
  a missing amount (\<open>None\<close>) is reported by a returned result, marked invalid, with the
  error recorded in it.
\<close>

theorem validate_amount_raises_on_bad_amount:
  assumes "Decimal_of_str a = None
           \<or> (\<exists>d. Decimal_of_str a = Some d \<and> dec_negative d = Some True)"
  shows "(\<exists>reason. validate_amount (Some a) allow_zero = Inl (InvalidAmountError reason))
         \<and> validate_amount None allow_zero =
             Inr \<lparr>is_valid = False, errors = [''Amount is required''], warnings = [],
                  cleaned_value = None\<rparr>"
  using assms by (auto simp: validate_amount_def new_result_def add_error_def)

theorem validate_amount_raises_on_bad_amount_witness:
  "(\<exists>reason. validate_amount (Some ''-1'') False = Inl (InvalidAmountError reason))
   \<and> (\<exists>reason. validate_amount (Some ''not_a_number'') False = Inl (InvalidAmountError reason))"
proof -
  have neg: "Decimal_of_str ''-1'' = None
             \<or> (\<exists>d. Decimal_of_str ''-1'' = Some d \<and> dec_negative d = Some True)"
    by (simp add: Decimal_of_str_minus_1)
  have bad: "Decimal_of_str ''not_a_number'' = None
             \<or> (\<exists>d. Decimal_of_str ''not_a_number'' = Some d \<and> dec_negative d = Some True)"
    by (simp add: Decimal_of_str_not_a_number)
  from validate_amount_raises_on_bad_amount [OF neg, of False]
    validate_amount_raises_on_bad_amount [OF bad, of False]
  show ?thesis by blast
qed

text \<open>
  C6 as stated fails: for the negative amount \<open>"-1"\<close> and for the unparsable amount
  \<open>"not_a_number"\<close> nothing is returned; \<open>InvalidAmountError\<close> is raised.
\<close>

theorem validate_amount_error_is_thrown:
  "validate_amount (Some ''-1'') False = Inl (InvalidAmountError ''Amount cannot be negative'')
   \<and> validate_amount (Some ''not_a_number'') False
       = Inl (InvalidAmountError ''Invalid amount format'')
   \<and> \<not> (\<exists>r. validate_amount (Some ''-1'') False = Inr r)
   \<and> \<not> (\<exists>r. validate_amount (Some ''not_a_number'') False = Inr r)"
  by (simp add: validate_amount_def Decimal_of_str_minus_1 Decimal_of_str_not_a_number)

subsection \<open>Status check of the loader\<close>

lemma length_errors_type:
  "e \<in> set (length_errors row idx) \<Longrightarrow> e_type e = ''field_too_long''"
  by (auto simp: length_errors_def MAX_LENGTHS_def split: option.splits if_splits)

lemma amount_errors_type:
  "e \<in> set (amount_errors row idx)
   \<Longrightarrow> e_type e = ''invalid_amount_format'' \<or> e_type e = ''invalid_amount''"
  by (auto simp: amount_errors_def split: option.splits if_splits bool.splits)

lemma date_errors_type:
  "e \<in> set (date_errors L row idx) \<Longrightarrow> e_type e = ''invalid_date_format''"
  by (auto simp: date_errors_def split: option.splits if_splits)

lemma status_errors_iff:
  "(\<exists>e \<in> set (status_errors row idx). e_type e = ''invalid_status'')
   = (\<exists>s. c_status row = Some s \<and> s \<noteq> [] \<and> s \<notin> set VALID_STATUSES)"
  by (cases "c_status row") (auto simp: status_errors_def)

text \<open>
  C7, as the code has it. In the per-row validation of the loader the status is tested
  as it was read, neither trimmed nor lowercased: a row gets an \<open>invalid_status\<close> error
  exactly when its status is present, not empty and not literally one of the allowed
  values. So a status that differs from an allowed value in letter case or surrounding
  whitespace, such as \<open>'PAID'\<close>, gives an \<open>invalid_status\<close> error.
\<close>

theorem loader_status_check_is_exact:
  "list_ex (\<lambda>e. e_type e = ''invalid_status'') (validate_row L row row_index)
   = (\<exists>s. c_status row = Some s \<and> s \<noteq> [] \<and> s \<notin> set VALID_STATUSES)"
proof -
  have "list_ex (\<lambda>e. e_type e = ''invalid_status'') (validate_row L row row_index)
        = (\<exists>e \<in> set (status_errors row row_index). e_type e = ''invalid_status'')"
    unfolding list_ex_iff validate_row_def
    by (auto simp: missing_required_field_def
        dest: length_errors_type amount_errors_type date_errors_type)
  then show ?thesis by (simp add: status_errors_iff)
qed

text \<open>
  C7 as stated fails: the status \<open>'PAID'\<close> is \<open>'paid'\<close> once trimmed and lowercased, and
  \<open>validate_status\<close> accepts it, yet the loader's validation of a row that is valid in
  every other field records an \<open>invalid_status\<close> error and counts the row invalid.
\<close>

theorem loader_rejects_uppercase_status:
  "lower (strip ''PAID'') \<in> set VALID_STATUSES
   \<and> validate_status (Some ''PAID'') =
       Inr \<lparr>is_valid = True, errors = [], warnings = [], cleaned_value = Some ''paid''\<rparr>
   \<and> map (\<lambda>e. (e_type e, e_field e, e_row e, e_value e))
         (validate_row sample_parsers (csv_row_of (Some ''a1'') ''PAID'') 0)
       = [(''invalid_status'', ''status'', 0, Some ''PAID'')]
   \<and> valid_rows (validate_data_integrity sample_parsers [(0, csv_row_of (Some ''a1'') ''PAID'')]) = 0
   \<and> invalid_rows (validate_data_integrity sample_parsers [(0, csv_row_of (Some ''a1'') ''PAID'')]) = 1"
  by code_simp

subsection \<open>Batch loading\<close>

text \<open>
  C2 at a failing input. A frame of three rows is loaded in batches of 2; the row with
  index 2 has no id, so the flush of the second batch fails and the row fails again when
  loaded alone. The error recorded for it is of type \<open>individual_row_error\<close>, but its
  \<open>row\<close> is 4, which is the index of no row of the frame: the label of the row in the
  frame is added to the start of the batch once more.
\<close>

theorem individual_row_error_index_is_shifted:
  "map fst three_rows = [0, 1, 2]
   \<and> (case load_dataframe_to_database sample_parsers empty_db three_rows 2 of
        Inl e \<Rightarrow> False
      | Inr (s, rows_loaded, loading_errors) \<Rightarrow>
          map (\<lambda>e. (l_type e, l_row e, c_id (l_data e))) loading_errors
            = [(''individual_row_error'', 4, None)])"
  by code_simp

subsection \<open>Date parsing in the validation of the transformer\<close>

text \<open>
  C10 at a failing input. A row that is valid in every other field and whose
  \<open>created_at\<close> is the text \<open>not-a-date\<close>, which no parser accepts: the error is recorded,
  but the result stays valid, the cleaned row keeps the text as its \<open>created_at\<close>, and
  the validation step keeps the row and reports no issue. A row whose \<open>paid_at\<close> does not
  parse is kept as the claim says, with a warning and a missing \<open>paid_at\<close>.
\<close>

theorem unparsable_created_at_is_kept:
  "first_match sample_parsers ''not-a-date'' DATE_PATTERNS = None
   \<and> to_datetime sample_parsers ''not-a-date'' = None
   \<and> validate_row_for_transformation sample_parsers
         (raw_row_of ''a1'' ''paid'' (DStr ''not-a-date'') DNull) 0
       = \<lparr>is_valid = True, errors = [''Unable to parse created_at: not-a-date''],
          warnings = [],
          cleaned_value = Some (raw_row_of ''a1'' ''paid'' (DStr ''not-a-date'') DNull)\<rparr>
   \<and> validate_transformed_data sample_parsers
         \<lparr>columns = RAW_COLUMNS,
          rows = [(0, raw_row_of ''a1'' ''paid'' (DStr ''not-a-date'') DNull)]\<rparr>
       = Inr (\<lparr>columns = RAW_COLUMNS,
               rows = [(0, raw_row_of ''a1'' ''paid'' (DStr ''not-a-date'') DNull)]\<rparr>, [])
   \<and> validate_row_for_transformation sample_parsers
         (raw_row_of ''a1'' ''paid'' (DStr ''2020-01-01'') (DStr ''not-a-date'')) 0
       = \<lparr>is_valid = True, errors = [],
          warnings = [''paid_at: Unable to parse paid_at: not-a-date''],
          cleaned_value = Some (raw_row_of ''a1'' ''paid'' (DDate 1577836800) DNull)\<rparr>"
  by code_simp



subsection \<open>Insert-if-absent loading of companies and charges\<close>

lemma insert_all_append: "insert_all ok t xs = Some t' \<Longrightarrow> t' = t @ xs"
proof (induction xs arbitrary: t)
  case Nil
  then show ?case by simp
next
  case (Cons y ys)
  from Cons.prems have "insert_all ok (t @ [y]) ys = Some t'"
    by (auto split: if_splits)
  from Cons.IH [OF this] show ?case by simp
qed

lemma insert_all_accepts:
  "insert_all ok t xs = Some t' \<Longrightarrow> x \<in> set xs \<Longrightarrow> \<exists>t0. ok t0 x \<and> set t \<subseteq> set t0"
proof (induction xs arbitrary: t)
  case Nil
  then show ?case by simp
next
  case (Cons y ys)
  from Cons.prems(1) have ok: "ok t y" and rest: "insert_all ok (t @ [y]) ys = Some t'"
    by (auto split: if_splits)
  show ?case
  proof (cases "x = y")
    case True
    with ok show ?thesis by auto
  next
    case False
    with Cons.prems(2) have "x \<in> set ys" by simp
    from Cons.IH [OF rest this] show ?thesis by auto
  qed
qed

lemma company_exists_pending [simp]:
  "company_exists (s\<lparr>new_companies := p\<rparr>) k = company_exists s k"
  by (simp add: company_exists_def)

lemma add_companies_spec:
  "add_companies s cs = (s', n) \<Longrightarrow>
   s' = s\<lparr>new_companies := new_companies s
            @ filter (\<lambda>c. \<not> company_exists s (co_company_id c)) cs\<rparr>
   \<and> n = length (filter (\<lambda>c. \<not> company_exists s (co_company_id c)) cs)"
proof (induction cs arbitrary: s s' n)
  case Nil
  then show ?case by simp
next
  case (Cons c cs)
  show ?case
  proof (cases "company_exists s (co_company_id c)")
    case True
    with Cons.prems have "add_companies s cs = (s', n)" by simp
    from Cons.IH [OF this] True show ?thesis by simp
  next
    case False
    with Cons.prems obtain m where
      rec: "add_companies (s\<lparr>new_companies := new_companies s @ [c]\<rparr>) cs = (s', m)"
      and n: "n = Suc m"
      by (auto split: prod.splits)
    from Cons.IH [OF rec] False n show ?thesis by simp
  qed
qed

lemma charge_exists_pending [simp]:
  "charge_exists (s\<lparr>new_charges := p\<rparr>) k = charge_exists s k"
  by (simp add: charge_exists_def)

lemma add_charges_spec:
  "add_charges s cs = (s', n) \<Longrightarrow>
   s' = s\<lparr>new_charges := new_charges s
            @ filter (\<lambda>c. \<not> charge_exists s (ch_id c)) cs\<rparr>
   \<and> n = length (filter (\<lambda>c. \<not> charge_exists s (ch_id c)) cs)"
proof (induction cs arbitrary: s s' n)
  case Nil
  then show ?case by simp
next
  case (Cons c cs)
  show ?case
  proof (cases "charge_exists s (ch_id c)")
    case True
    with Cons.prems have "add_charges s cs = (s', n)" by simp
    from Cons.IH [OF this] True show ?thesis by simp
  next
    case False
    with Cons.prems obtain m where
      rec: "add_charges (s\<lparr>new_charges := new_charges s @ [c]\<rparr>) cs = (s', m)"
      and n: "n = Suc m"
      by (auto split: prod.splits)
    from Cons.IH [OF rec] False n show ?thesis by simp
  qed
qed

lemma flush_idle: "idle s \<Longrightarrow> flush L s = Inr s"
  by (cases s) (simp add: idle_def flush_def)

lemma load_companies_spec:
  assumes "load_companies L s cs = Inr (s', n)" and "idle s"
  shows "\<exists>added. companies (flushed s') = companies (flushed s) @ added
           \<and> length added = n
           \<and> (\<forall>c \<in> set added. co_company_id c \<notin> set (map co_company_id (companies (flushed s))))
           \<and> (\<forall>c \<in> set cs. company_exists s' (co_company_id c))
           \<and> raw_transactions (flushed s') = raw_transactions (flushed s)
           \<and> charges (flushed s') = charges (flushed s)
           \<and> idle s'"
proof -
  define added where "added = filter (\<lambda>c. \<not> company_exists s (co_company_id c)) cs"
  obtain s1 m where a: "add_companies s cs = (s1, m)" by (cases "add_companies s cs")
  from add_companies_spec [OF a] assms(2)
  have s1: "s1 = s\<lparr>new_companies := added\<rparr>" and m: "m = length added"
    by (simp_all add: added_def idle_def)
  from assms(1) a have fl: "flush L s1 = Inr s'" and nm: "n = m"
    by (auto simp: load_companies_def split: sum.splits)
  from fl s1 assms(2) obtain comps where
    ins: "insert_all (company_ok L) (companies (flushed s)) added = Some comps"
    and s': "s' = s1\<lparr>flushed := \<lparr>raw_transactions = raw_transactions (flushed s),
                     companies = comps, charges = charges (flushed s)\<rparr>,
                   new_raw := [], new_companies := [], new_charges := []\<rparr>"
    by (auto simp: flush_def idle_def split: option.splits)
  have comps: "comps = companies (flushed s) @ added"
    using insert_all_append [OF ins] .
  have fresh: "\<forall>c \<in> set added. co_company_id c \<noteq> None
                 \<and> co_company_id c \<notin> set (map co_company_id (companies (flushed s)))"
  proof
    fix c assume c: "c \<in> set added"
    from insert_all_accepts [OF ins c] obtain t0 where
      "company_ok L t0 c" and "set (companies (flushed s)) \<subseteq> set t0" by blast
    then show "co_company_id c \<noteq> None
                 \<and> co_company_id c \<notin> set (map co_company_id (companies (flushed s)))"
      by (auto simp: company_ok_def)
  qed
  have all: "\<forall>c \<in> set cs. company_exists s' (co_company_id c)"
  proof
    fix c assume c: "c \<in> set cs"
    show "company_exists s' (co_company_id c)"
    proof (cases "company_exists s (co_company_id c)")
      case True
      then show ?thesis by (auto simp: company_exists_def s' comps)
    next
      case False
      with c have "c \<in> set added" by (simp add: added_def)
      with fresh show ?thesis by (auto simp: company_exists_def s' comps)
    qed
  qed
  show ?thesis
    using fresh all m nm by (intro exI [of _ added]) (simp add: s' s1 comps idle_def)
qed

lemma load_companies_none_new:
  assumes "\<forall>c \<in> set cs. company_exists s (co_company_id c)" and "idle s"
  shows "load_companies L s cs = Inr (s, 0)"
proof -
  obtain s1 m where a: "add_companies s cs = (s1, m)" by (cases "add_companies s cs")
  have "filter (\<lambda>c. \<not> company_exists s (co_company_id c)) cs = []"
    using assms(1) by (simp add: filter_empty_conv)
  with add_companies_spec [OF a] have "s1 = s" and "m = 0" by simp_all
  with a flush_idle [OF assms(2)] show ?thesis by (simp add: load_companies_def)
qed


lemma load_charges_spec:
  assumes "load_charges L s cs = Inr (s', n)" and "idle s"
  shows "\<exists>added. charges (flushed s') = charges (flushed s) @ added
           \<and> length added = n
           \<and> (\<forall>c \<in> set added. ch_id c \<notin> set (map ch_id (charges (flushed s))))
           \<and> (\<forall>c \<in> set cs. charge_exists s' (ch_id c))
           \<and> raw_transactions (flushed s') = raw_transactions (flushed s)
           \<and> companies (flushed s') = companies (flushed s)
           \<and> idle s'"
proof -
  define added where "added = filter (\<lambda>c. \<not> charge_exists s (ch_id c)) cs"
  obtain s1 m where a: "add_charges s cs = (s1, m)" by (cases "add_charges s cs")
  from add_charges_spec [OF a] assms(2)
  have s1: "s1 = s\<lparr>new_charges := added\<rparr>" and m: "m = length added"
    by (simp_all add: added_def idle_def)
  from assms(1) a have fl: "flush L s1 = Inr s'" and nm: "n = m"
    by (auto simp: load_charges_def split: sum.splits)
  from fl s1 assms(2) obtain chs where
    ins: "insert_all (charge_ok L (companies (flushed s))) (charges (flushed s)) added
           = Some chs"
    and s': "s' = s1\<lparr>flushed := \<lparr>raw_transactions = raw_transactions (flushed s),
                     companies = companies (flushed s), charges = chs\<rparr>,
                   new_raw := [], new_companies := [], new_charges := []\<rparr>"
    by (auto simp: flush_def idle_def split: option.splits)
  have chs: "chs = charges (flushed s) @ added"
    using insert_all_append [OF ins] .
  have fresh: "\<forall>c \<in> set added. ch_id c \<noteq> None
                 \<and> ch_id c \<notin> set (map ch_id (charges (flushed s)))"
  proof
    fix c assume c: "c \<in> set added"
    from insert_all_accepts [OF ins c] obtain t0 where
      "charge_ok L (companies (flushed s)) t0 c" and "set (charges (flushed s)) \<subseteq> set t0"
      by blast
    then show "ch_id c \<noteq> None \<and> ch_id c \<notin> set (map ch_id (charges (flushed s)))"
      by (auto simp: charge_ok_def)
  qed
  have all: "\<forall>c \<in> set cs. charge_exists s' (ch_id c)"
  proof
    fix c assume c: "c \<in> set cs"
    show "charge_exists s' (ch_id c)"
    proof (cases "charge_exists s (ch_id c)")
      case True
      then show ?thesis by (auto simp: charge_exists_def s' chs)
    next
      case False
      with c have "c \<in> set added" by (simp add: added_def)
      with fresh show ?thesis by (auto simp: charge_exists_def s' chs)
    qed
  qed
  show ?thesis
    using fresh all m nm by (intro exI [of _ added]) (simp add: s' s1 chs idle_def)
qed

lemma load_charges_none_new:
  assumes "\<forall>c \<in> set cs. charge_exists s (ch_id c)" and "idle s"
  shows "load_charges L s cs = Inr (s, 0)"
proof -
  obtain s1 m where a: "add_charges s cs = (s1, m)" by (cases "add_charges s cs")
  have "filter (\<lambda>c. \<not> charge_exists s (ch_id c)) cs = []"
    using assms(1) by (simp add: filter_empty_conv)
  with add_charges_spec [OF a] have "s1 = s" and "m = 0" by simp_all
  with a flush_idle [OF assms(2)] show ?thesis by (simp add: load_charges_def)
qed

lemma idle_begin_session: "idle (begin_session db)"
  by (simp add: idle_def begin_session_def)

lemma extract_companies_ids:
  "extract_companies now df = Inr cs \<Longrightarrow>
   \<exists>cs'. extract_companies now' df = Inr cs' \<and> map co_company_id cs' = map co_company_id cs"
  by (auto simp: extract_companies_def split: if_splits)

text \<open>
  C1. The loads of the transformer insert a company only when no row with its
  \<open>company_id\<close> exists and a charge only when no row with its \<open>id\<close> exists: a transform
  that succeeds leaves the rows that were there and appends new rows, as many as it
  reports created, each with a key that no earlier row had. Run again on the database it
  produced (the same raw data, the companies and charges of the first run present), the
  transform succeeds, changes nothing and creates zero companies and zero charges.
\<close>

theorem transform_inserts_only_absent_rows:
  assumes run: "transform_to_schema L now db validate_data use_business_rules = Inr (db', report)"
  shows "(\<exists>added_companies added_charges.
            companies db' = companies db @ added_companies
            \<and> charges db' = charges db @ added_charges
            \<and> companies_created report = length added_companies
            \<and> charges_created report = length added_charges
            \<and> (\<forall>c \<in> set added_companies.
                  co_company_id c \<notin> set (map co_company_id (companies db)))
            \<and> (\<forall>c \<in> set added_charges. ch_id c \<notin> set (map ch_id (charges db))))
         \<and> (\<exists>report'.
               transform_to_schema L now' db' validate_data use_business_rules
                 = Inr (db', report')
               \<and> companies_created report' = 0 \<and> charges_created report' = 0)"
proof (cases "raw_transactions db = []")
  case True
  with run have "db' = db" and "report = zero_report"
    by (simp_all add: transform_to_schema_def)
  with True show ?thesis
    by (simp add: transform_to_schema_def zero_report_def)
next
  case False
  define s0 where "s0 = begin_session db"
  have s0: "idle s0" "flushed s0 = db"
    by (simp_all add: s0_def idle_begin_session) (simp add: begin_session_def)
  from run False obtain s where
    ts: "transform_in_session L now s0 validate_data use_business_rules = Inr (s, report)"
    and db': "db' = flushed s"
    by (auto simp: transform_to_schema_def s0_def split: sum.splits)
  from ts s0 obtain df issues cdf s1 n1 chdf n2 where
    prep: "prepare_frame L (raw_transactions db) validate_data use_business_rules
             = Inr (df, issues)"
    and ext: "extract_companies now df = Inr cdf"
    and lc: "load_companies L s0 cdf = Inr (s1, n1)"
    and tch: "transform_charges df = Inr chdf"
    and lch: "load_charges L s1 chdf = Inr (s, n2)"
    and rep: "companies_created report = n1" "charges_created report = n2"
    by (auto simp: transform_in_session_def Let_def split: sum.splits)
  from load_companies_spec [OF lc s0(1)] s0(2) obtain added_companies where
    c1: "companies (flushed s1) = companies db @ added_companies"
    and c2: "length added_companies = n1"
    and c3: "\<forall>c \<in> set added_companies.
               co_company_id c \<notin> set (map co_company_id (companies db))"
    and c4: "\<forall>c \<in> set cdf. company_exists s1 (co_company_id c)"
    and c5: "raw_transactions (flushed s1) = raw_transactions db"
    and c6: "charges (flushed s1) = charges db"
    and c7: "idle s1"
    by auto
  from load_charges_spec [OF lch c7] obtain added_charges where
    d1: "charges (flushed s) = charges (flushed s1) @ added_charges"
    and d2: "length added_charges = n2"
    and d3: "\<forall>c \<in> set added_charges. ch_id c \<notin> set (map ch_id (charges (flushed s1)))"
    and d4: "\<forall>c \<in> set chdf. charge_exists s (ch_id c)"
    and d5: "raw_transactions (flushed s) = raw_transactions (flushed s1)"
    and d6: "companies (flushed s) = companies (flushed s1)"
    and d7: "idle s"
    by auto
  have first: "\<exists>added_companies added_charges.
            companies db' = companies db @ added_companies
            \<and> charges db' = charges db @ added_charges
            \<and> companies_created report = length added_companies
            \<and> charges_created report = length added_charges
            \<and> (\<forall>c \<in> set added_companies.
                  co_company_id c \<notin> set (map co_company_id (companies db)))
            \<and> (\<forall>c \<in> set added_charges. ch_id c \<notin> set (map ch_id (charges db)))"
    using c1 c2 c3 c6 d1 d2 d3 d6 rep db'
    by (intro exI [of _ added_companies] exI [of _ added_charges]) simp
  define t0 where "t0 = begin_session db'"
  have t0: "idle t0" "flushed t0 = db'"
    by (simp_all add: t0_def idle_begin_session) (simp add: begin_session_def)
  have raw: "raw_transactions db' = raw_transactions db"
    using db' d5 c5 by simp
  from extract_companies_ids [OF ext, of now'] obtain cdf' where
    ext': "extract_companies now' df = Inr cdf'"
    and ids: "map co_company_id cdf' = map co_company_id cdf"
    by blast
  have "\<forall>k \<in> set (map co_company_id cdf). company_exists t0 k"
    using c4 d6 db' t0(2) by (auto simp: company_exists_def)
  then have "\<forall>c \<in> set cdf'. company_exists t0 (co_company_id c)"
    unfolding ids [symmetric] by simp
  from load_companies_none_new [OF this t0(1)]
  have lc': "load_companies L t0 cdf' = Inr (t0, 0)" .
  have "\<forall>c \<in> set chdf. charge_exists t0 (ch_id c)"
    using d4 db' t0(2) by (auto simp: charge_exists_def)
  from load_charges_none_new [OF this t0(1)]
  have lch': "load_charges L t0 chdf = Inr (t0, 0)" .
  have "\<exists>report'. transform_in_session L now' t0 validate_data use_business_rules
                     = Inr (t0, report')
          \<and> companies_created report' = 0 \<and> charges_created report' = 0"
    using prep ext' lc' tch lch' raw t0(2)
    by (simp add: transform_in_session_def Let_def)
  then have second: "\<exists>report'.
               transform_to_schema L now' db' validate_data use_business_rules
                 = Inr (db', report')
               \<and> companies_created report' = 0 \<and> charges_created report' = 0"
    using False raw t0(2) by (auto simp: transform_to_schema_def t0_def)
  from first second show ?thesis by blast
qed


lemma transform_two_paid:
  "transform_to_schema sample_parsers 1580000000 db_two_paid True True
     = Inr (db_two_paid_transformed, report_two_paid)"
  by code_simp

lemma transform_two_paid_unvalidated:
  "transform_to_schema sample_parsers 1580000000 db_two_paid False True
     = Inr (db_two_paid_transformed_unvalidated, report_two_paid)"
  by code_simp

theorem transform_inserts_only_absent_rows_witness:
  "transform_to_schema sample_parsers 1580000000 db_two_paid True True
     = Inr (db_two_paid_transformed, report_two_paid)
   \<and> companies_created report_two_paid = 1 \<and> charges_created report_two_paid = 2
   \<and> (\<exists>report'.
         transform_to_schema sample_parsers 1590000000 db_two_paid_transformed True True
           = Inr (db_two_paid_transformed, report')
         \<and> companies_created report' = 0 \<and> charges_created report' = 0)
   \<and> transform_to_schema sample_parsers 1580000000 db_two_paid False True
       = Inr (db_two_paid_transformed_unvalidated, report_two_paid)
   \<and> (\<exists>report'.
         transform_to_schema sample_parsers 1590000000 db_two_paid_transformed_unvalidated
             False True
           = Inr (db_two_paid_transformed_unvalidated, report')
         \<and> companies_created report' = 0 \<and> charges_created report' = 0)"
  using transform_inserts_only_absent_rows [OF transform_two_paid, of 1590000000]
    transform_inserts_only_absent_rows [OF transform_two_paid_unvalidated, of 1590000000]
    transform_two_paid transform_two_paid_unvalidated
  by (simp add: report_two_paid_def)

text \<open>
  The hypothesis of the theorem matters. In a validated frame where one row has an
  \<open>updated_at\<close> and another has none, the \<open>updated_at\<close> column of the charges is
  \<open>datetime64\<close> and the missing cell is sent as \<open>NaT\<close>: the insert is refused and the
  transform aborts. The same raw rows load without validation, where the dates are texts
  and the missing cell is sent as \<open>None\<close>.
\<close>

lemma transform_mixed_updated_at_aborts:
  "transform_to_schema sample_parsers 1580000000 db_two_raw True True
     = Inl (DatabaseTransactionError ''charges'')
   \<and> (case transform_to_schema sample_parsers 1580000000 db_two_raw False True of
        Inl e \<Rightarrow> False
      | Inr (db', report) \<Rightarrow>
          map (\<lambda>c. (ch_id c, ch_created_at c, ch_updated_at c)) (charges db')
            = [(Some ''a1'', DStr ''2020-01-01'', DStr ''2020-01-02''),
               (Some ''a2'', DStr ''2020-01-02'', DNull)])"
  by code_simp

subsection \<open>Business rules: updated_at of paid rows\<close>

lemma drop_duplicates_subset: "set (drop_duplicates key seen xs) \<subseteq> set xs"
  by (induction xs arbitrary: seen) auto


lemma rules_rows:
  assumes "apply_business_rules df = Inr (cleaned_df, issues)"
  shows "\<exists>name amount.
           rows cleaned_df =
             map (\<lambda>(idx, r). (idx, r\<lparr>r_name := name r, r_amount := amount r,
                                      r_updated_at := expected_updated_at df r\<rparr>))
               (drop_duplicates (\<lambda>(idx, r). r_id r) [] (rows df))"
proof -
  from assms obtain df1 i1 df2 df3 i3 where
    r1: "rule_remove_duplicates df = Inr (df1, i1)"
    and r2: "rule_company_names df1 = Inr df2"
    and r3: "rule_small_amounts df2 = Inr (df3, i3)"
    and r4: "rule_updated_at df3 = Inr cleaned_df"
    by (auto simp: apply_business_rules_def split: sum.splits)
  let ?kept = "drop_duplicates (\<lambda>(idx, r). r_id r) [] (rows df)"
  from r1 have d1: "rows df1 = ?kept" "columns df1 = columns df"
    by (auto simp: rule_remove_duplicates_def Let_def split: if_splits)
  from r2 have d2: "rows df2 = map (\<lambda>(idx, r). (idx, r\<lparr>r_name := standardize_company_name (r_name r)\<rparr>)) (rows df1)"
    "columns df2 = columns df1"
    by (auto simp: rule_company_names_def split: if_splits)
  from r3 have d3: "\<exists>amount. rows df3 = map (\<lambda>(idx, r). (idx, r\<lparr>r_amount := amount r\<rparr>)) (rows df2)"
    and c3: "columns df3 = columns df2"
  proof -
    from r3 have "rows df3 = rows df2 \<or> rows df3 = map (\<lambda>(idx, r).
                                  (idx, if amount_small (r_amount r) = Some True
                                        then r\<lparr>r_amount := ADec one_cent\<rparr> else r)) (rows df2)"
      by (auto simp: rule_small_amounts_def Let_def split: if_splits)
    then show "\<exists>amount. rows df3 = map (\<lambda>(idx, r). (idx, r\<lparr>r_amount := amount r\<rparr>)) (rows df2)"
    proof
      assume "rows df3 = rows df2"
      then show ?thesis
        by (intro exI [of _ r_amount]) (simp add: case_prod_beta)
    next
      assume a: "rows df3 = map (\<lambda>(idx, r).
                                  (idx, if amount_small (r_amount r) = Some True
                                        then r\<lparr>r_amount := ADec one_cent\<rparr> else r)) (rows df2)"
      show ?thesis
        by (intro exI [of _ "\<lambda>r. if amount_small (r_amount r) = Some True then ADec one_cent else r_amount r"])
          (auto simp: a case_prod_beta)
    qed
    from r3 show "columns df3 = columns df2"
      by (auto simp: rule_small_amounts_def Let_def split: if_splits)
  qed
  from d3 obtain amount where d3': "rows df3 = map (\<lambda>(idx, r). (idx, r\<lparr>r_amount := amount r\<rparr>)) (rows df2)"
    by blast
  have cols: "columns df3 = columns df" using c3 d2 d1 by simp
  from r4 have d4: "rows cleaned_df = map (\<lambda>(idx, r). (idx, r\<lparr>r_updated_at := expected_updated_at df r\<rparr>)) (rows df3)"
    using cols
    by (auto simp: rule_updated_at_def set_updated_at_def expected_updated_at_def has_column_def
        split: if_splits)
  show ?thesis
    apply (rule exI [of _ "\<lambda>r. standardize_company_name (r_name r)"])
    apply (rule exI [of _ "\<lambda>r. amount (r\<lparr>r_name := standardize_company_name (r_name r)\<rparr>)"])
    apply (simp add: d4 d3' d2 d1 case_prod_beta expected_updated_at_def comp_def)
    done
qed


lemma rules_date_check:
  assumes "apply_business_rules df = Inr (cleaned_df, issues)"
  shows "\<exists>date_issues. validate_date_consistency cleaned_df = Inr date_issues
           \<and> set date_issues \<subseteq> set issues"
    and "columns cleaned_df = add_column ''updated_at'' (columns df)"
proof -
  from assms obtain df1 i1 df2 df3 i3 date_issues where
    r1: "rule_remove_duplicates df = Inr (df1, i1)"
    and r2: "rule_company_names df1 = Inr df2"
    and r3: "rule_small_amounts df2 = Inr (df3, i3)"
    and r4: "rule_updated_at df3 = Inr cleaned_df"
    and r5: "validate_date_consistency cleaned_df = Inr date_issues"
    and iss: "issues = i1 @ i3 @ date_issues"
    by (auto simp: apply_business_rules_def split: sum.splits)
  from r5 iss show "\<exists>date_issues. validate_date_consistency cleaned_df = Inr date_issues
           \<and> set date_issues \<subseteq> set issues"
    by auto
  from r1 have "columns df1 = columns df"
    by (auto simp: rule_remove_duplicates_def Let_def split: if_splits)
  moreover from r2 have "columns df2 = columns df1"
    by (auto simp: rule_company_names_def split: if_splits)
  moreover from r3 have "columns df3 = columns df2"
    by (auto simp: rule_small_amounts_def Let_def split: if_splits)
  moreover from r4 have "columns cleaned_df = add_column ''updated_at'' (columns df3)"
    by (auto simp: rule_updated_at_def set_updated_at_def split: if_splits)
  ultimately show "columns cleaned_df = add_column ''updated_at'' (columns df)"
    by simp
qed

lemma paid_row_needs_date_columns:
  assumes "validate_date_consistency df = Inr date_issues"
    and "(idx, r) \<in> set (rows df)" and "r_status r = Some ''paid''"
  shows "has_column df ''paid_at'' \<and> has_column df ''created_at''"
proof -
  from assms(2,3) have "filter (\<lambda>(idx, r). r_status r = Some ''paid'') (rows df) \<noteq> []"
    by (auto simp: filter_empty_conv)
  with assms(1) show ?thesis
    by (auto simp: validate_date_consistency_def Let_def split: if_splits)
qed

text \<open>
  C5, as the code has it. When the business rules complete, every row of the cleaned
  frame with status \<open>paid\<close> has its own \<open>paid_at\<close> cell as \<open>updated_at\<close>, missing when
  \<open>paid_at\<close> is missing; it comes from a row of the input with the same id, status and
  dates. \<open>created_at\<close> is never put in its place: the branch that uses it is taken only
  for a frame with no \<open>paid_at\<close> column, and for such a frame with a paid row the date
  check of the same rules raises, so the frame had a \<open>paid_at\<close> column.
\<close>

theorem paid_rows_updated_at_is_paid_at:
  assumes "apply_business_rules df = Inr (cleaned_df, issues)"
    and "(idx, r') \<in> set (rows cleaned_df)"
    and "r_status r' = Some ''paid''"
  shows "r_updated_at r' = r_paid_at r'
         \<and> has_column df ''paid_at''
         \<and> (\<exists>r. (idx, r) \<in> set (rows df) \<and> r_id r = r_id r' \<and> r_status r = Some ''paid''
                \<and> r_paid_at r = r_paid_at r' \<and> r_created_at r = r_created_at r')"
proof -
  from rules_date_check [OF assms(1)] obtain date_issues where
    dc: "validate_date_consistency cleaned_df = Inr date_issues"
    and cols: "columns cleaned_df = add_column ''updated_at'' (columns df)"
    by blast
  from paid_row_needs_date_columns [OF dc assms(2,3)]
  have "has_column cleaned_df ''paid_at''" by simp
  with cols have paid_col: "has_column df ''paid_at''"
    by (auto simp: has_column_def add_column_def split: if_splits)
  from rules_rows [OF assms(1)] obtain name amount where
    rows: "rows cleaned_df =
             map (\<lambda>(idx, r). (idx, r\<lparr>r_name := name r, r_amount := amount r,
                                      r_updated_at := expected_updated_at df r\<rparr>))
               (drop_duplicates (\<lambda>(idx, r). r_id r) [] (rows df))"
    by blast
  with assms(2) obtain r where
    kept: "(idx, r) \<in> set (drop_duplicates (\<lambda>(idx, r). r_id r) [] (rows df))"
    and r': "r' = r\<lparr>r_name := name r, r_amount := amount r,
                    r_updated_at := expected_updated_at df r\<rparr>"
    by auto
  from kept drop_duplicates_subset have src: "(idx, r) \<in> set (rows df)" by fast
  from r' assms(3) have paid: "r_status r = Some ''paid''" by simp
  from r' paid paid_col have "r_updated_at r' = r_paid_at r'"
    by (simp add: expected_updated_at_def)
  moreover from src r' paid
  have "\<exists>r. (idx, r) \<in> set (rows df) \<and> r_id r = r_id r' \<and> r_status r = Some ''paid''
                \<and> r_paid_at r = r_paid_at r' \<and> r_created_at r = r_created_at r'"
    by (intro exI [of _ r]) simp
  ultimately show ?thesis using paid_col by simp
qed


lemma rules_paid_in_order:
  "apply_business_rules (frame_of paid_in_order) = Inr (cleaned_frame_of paid_in_order, [])"
  by code_simp

theorem paid_rows_updated_at_is_paid_at_witness:
  "apply_business_rules (frame_of paid_in_order) = Inr (cleaned_frame_of paid_in_order, [])
   \<and> rows (cleaned_frame_of paid_in_order)
       = [(0, paid_in_order\<lparr>r_updated_at := DDate 1577923200\<rparr>)]
   \<and> r_status (paid_in_order\<lparr>r_updated_at := DDate 1577923200\<rparr>) = Some ''paid''
   \<and> r_updated_at (paid_in_order\<lparr>r_updated_at := DDate 1577923200\<rparr>)
       = r_paid_at (paid_in_order\<lparr>r_updated_at := DDate 1577923200\<rparr>)
   \<and> has_column (frame_of paid_in_order) ''paid_at''"
proof -
  have rows: "rows (cleaned_frame_of paid_in_order)
                = [(0, paid_in_order\<lparr>r_updated_at := DDate 1577923200\<rparr>)]"
    by (simp add: cleaned_frame_of_def paid_in_order_def raw_row_of_def)
  have mem: "(0, paid_in_order\<lparr>r_updated_at := DDate 1577923200\<rparr>)
               \<in> set (rows (cleaned_frame_of paid_in_order))"
    by (simp add: rows)
  have paid: "r_status (paid_in_order\<lparr>r_updated_at := DDate 1577923200\<rparr>) = Some ''paid''"
    by (simp add: paid_in_order_def raw_row_of_def)
  from paid_rows_updated_at_is_paid_at [OF rules_paid_in_order mem paid]
    rules_paid_in_order rows paid
  show ?thesis by simp
qed

text \<open>
  C5 as stated fails: a paid raw row with no \<open>paid_at\<close> is transformed into a charge
  whose \<open>updated_at\<close> is missing, while its \<open>created_at\<close> is present.
\<close>

theorem paid_row_without_paid_at_has_no_updated_at:
  "(case transform_to_schema sample_parsers 1580000000 db_paid_without_paid_at True True of
      Inl e \<Rightarrow> False
    | Inr (db', report) \<Rightarrow>
        map (\<lambda>c. (ch_id c, ch_status c, ch_created_at c, ch_updated_at c)) (charges db')
          = [(Some ''a1'', Some ''paid'', DDate 1577836800, DNull)])
   \<and> apply_business_rules (frame_of (raw_row_of ''a1'' ''paid'' (DDate 1577836800) DNull))
       = Inr (cleaned_frame_of (raw_row_of ''a1'' ''paid'' (DDate 1577836800) DNull), [])
   \<and> rows (cleaned_frame_of (raw_row_of ''a1'' ''paid'' (DDate 1577836800) DNull))
       = [(0, raw_row_of ''a1'' ''paid'' (DDate 1577836800) DNull)]"
  by code_simp

subsection \<open>Business rules: date consistency\<close>












end
